theory Spec2Isabelle
  imports Complex_Main "HOL-Library.Word" "HOL-Library.Finite_Map"
begin

section \<open>JavaScript values\<close>

text \<open>
  A JavaScript string is a sequence of UTF-16 code units, and \<open>length\<close> counts code
  units. String literals of the source are written with \<open>lit\<close>; characters outside
  ASCII (the emoji of the messages) are given by their code units.
\<close>

type_synonym jschar = "16 word"
type_synonym jstring = "jschar list"

definition lit :: "string \<Rightarrow> jstring" where
  "lit s = map (\<lambda>c. of_nat (of_char c)) s"

text \<open>\<open>WhiteSpace\<close> and \<open>LineTerminator\<close> of ECMAScript: what \<open>String.prototype.trim\<close> strips.\<close>

definition isWhiteSpace :: "jschar \<Rightarrow> bool" where
  "isWhiteSpace c \<longleftrightarrow>
     c = 0x9 \<or> c = 0xA \<or> c = 0xB \<or> c = 0xC \<or> c = 0xD \<or> c = 0x20 \<or> c = 0xA0 \<or>
     c = 0x1680 \<or> (0x2000 \<le> c \<and> c \<le> 0x200A) \<or> c = 0x2028 \<or> c = 0x2029 \<or>
     c = 0x202F \<or> c = 0x205F \<or> c = 0x3000 \<or> c = 0xFEFF"

definition trim :: "jstring \<Rightarrow> jstring" where
  "trim s = rev (dropWhile isWhiteSpace (rev (dropWhile isWhiteSpace s)))"

definition startsWith :: "jstring \<Rightarrow> jstring \<Rightarrow> bool" where
  "startsWith s p \<longleftrightarrow> take (length p) s = p"

text \<open>\<open>Array.prototype.join\<close> on an array of strings.\<close>

fun join :: "jstring \<Rightarrow> jstring list \<Rightarrow> jstring" where
  "join sep [] = []"
| "join sep [x] = x"
| "join sep (x # y # ys) = x @ sep @ join sep (y # ys)"

text \<open>Decimal rendering of a non-negative integer, as \<open>${n}\<close> gives it.\<close>

fun digits :: "nat \<Rightarrow> jstring" where
  "digits n = (if n < 10 then [of_nat (48 + n)]
               else digits (n div 10) @ [of_nat (48 + n mod 10)])"

declare digits.simps [simp del]

text \<open>
  A JavaScript number is NaN, an infinity or a finite value. Finite values are kept as
  rationals: the rounding of a double is not part of the model, and \<open>-0\<close> is \<open>0\<close>.
\<close>

datatype jsnum = NaN | PosInf | NegInf | Fin rat

text \<open>
  The values \<open>JSON.parse\<close> returns. An object is a finite map from property names to
  values, so two objects are equal when they have the same properties with the same
  values; the order of the keys, which only serialisation shows, and the property name
  \<open>__proto__\<close>, which JavaScript treats specially, are outside the model. \<open>undefined\<close>
  is \<open>None\<close> of \<open>json option\<close>.
\<close>

datatype json =
    JNull
  | JBool bool
  | JNum jsnum
  | JStr jstring
  | JArr "json list"
  | JObj "(jstring, json) fmap"

type_synonym jsv = "json option"

text \<open>
  What the source can throw: \<open>new Error(message)\<close>, the \<open>TypeError\<close> of reading
  a property of \<open>null\<close> or \<open>undefined\<close> (the value read from, and the property),
  and the \<open>TypeError\<close> of \<open>new URL\<close> on a string that is no URL.
\<close>

datatype exn = Error jstring | TypeError jsv jstring | InvalidURL jstring

definition andThen :: "exn + 'a \<Rightarrow> ('a \<Rightarrow> exn + 'b) \<Rightarrow> exn + 'b" where
  "andThen m f = (case m of Inl e \<Rightarrow> Inl e | Inr x \<Rightarrow> f x)"

text \<open>
  The own property \<open>k\<close> of a value, \<open>undefined\<close> when there is none. The source reads
  only property names that no prototype defines, so a primitive or an array has none
  of them.
\<close>

definition propOf :: "json \<Rightarrow> jstring \<Rightarrow> jsv" where
  "propOf v k = (case v of JObj m \<Rightarrow> fmlookup m k | _ \<Rightarrow> None)"

text \<open>The expression \<open>v.k\<close>: reading from \<open>null\<close> or \<open>undefined\<close> throws.\<close>

definition getProp :: "jsv \<Rightarrow> jstring \<Rightarrow> exn + jsv" where
  "getProp v k =
     (case v of
        None \<Rightarrow> Inl (TypeError v k)
      | Some JNull \<Rightarrow> Inl (TypeError v k)
      | Some j \<Rightarrow> Inr (propOf j k))"

text \<open>Truthiness, as \<open>if (v)\<close> tests it.\<close>

definition truthy :: "jsv \<Rightarrow> bool" where
  "truthy v =
     (case v of
        None \<Rightarrow> False
      | Some JNull \<Rightarrow> False
      | Some (JBool b) \<Rightarrow> b
      | Some (JNum n) \<Rightarrow> n \<noteq> NaN \<and> n \<noteq> Fin 0
      | Some (JStr s) \<Rightarrow> s \<noteq> []
      | Some (JArr xs) \<Rightarrow> True
      | Some (JObj m) \<Rightarrow> True)"

section \<open>The host: builtins and libraries outside the repository\<close>

text \<open>
  The parsed form of a URL (\<open>new URL(s)\<close>), a request handed to \<open>https.request\<close>, and
  what the transport answers: a response, or an \<open>error\<close> event with its message.
\<close>

record url =
  protocol :: jstring
  hostname :: jstring
  port :: jstring
  pathname :: jstring
  search :: jstring

record request =
  req_hostname :: jstring
  req_port :: jstring
  req_path :: jstring
  req_method :: jstring
  req_headers :: "(jstring \<times> jstring) list"
  req_body :: jstring

record HttpResponse =
  statusCode :: nat
  data :: jstring

datatype transport_result = Responded HttpResponse | NetworkError jstring

text \<open>
  The builtins of the JavaScript runtime and the library functions whose code is not
  part of the repository are parameters of the model:
  \<^item> \<open>JSON_parse\<close>: \<open>JSON.parse\<close>, the value or the message of the \<open>SyntaxError\<close>;
  \<^item> \<open>JSON_stringify\<close>, \<open>JSON_stringify_pretty\<close>: \<open>JSON.stringify(v)\<close> and
    \<open>JSON.stringify(v, null, 2)\<close>;
  \<^item> \<open>Number_toString\<close>: the string of a number in a template literal;
  \<^item> \<open>URL_parse\<close>: \<open>new URL(s)\<close>, \<open>None\<close> when it throws;
  \<^item> \<open>zod_message\<close>: the default message of the validation library for an issue
    that the schema gives no message for (issue code, what was expected, the input);
  \<^item> \<open>input_env\<close>: the value the workflow gives an input, empty when it gives none;
  \<^item> \<open>byteLength\<close>: \<open>Buffer.byteLength\<close>, the length of the UTF-8 encoding;
  \<^item> \<open>https_request\<close>: the transport.
\<close>

record host =
  JSON_parse :: "jstring \<Rightarrow> jstring + json"
  JSON_stringify :: "json \<Rightarrow> jstring"
  JSON_stringify_pretty :: "json \<Rightarrow> jstring"
  Number_toString :: "jsnum \<Rightarrow> jstring"
  URL_parse :: "jstring \<Rightarrow> url option"
  zod_message :: "jstring \<Rightarrow> jstring \<Rightarrow> jsv \<Rightarrow> jstring"
  input_env :: "jstring \<Rightarrow> jstring"
  byteLength :: "jstring \<Rightarrow> nat"
  https_request :: "request \<Rightarrow> transport_result"

text \<open>
  \<open>ToString\<close> of a value inside a template literal. An array is its elements joined by
  commas, \<open>null\<close> elements rendered empty; an object is \<open>[object Object]\<close>.
\<close>

fun toStr :: "host \<Rightarrow> json \<Rightarrow> jstring" where
  "toStr h JNull = lit ''null''"
| "toStr h (JBool b) = (if b then lit ''true'' else lit ''false'')"
| "toStr h (JNum n) = Number_toString h n"
| "toStr h (JStr s) = s"
| "toStr h (JArr xs) = join (lit '','') (map (\<lambda>x. if x = JNull then [] else toStr h x) xs)"
| "toStr h (JObj m) = lit ''[object Object]''"

definition toString :: "host \<Rightarrow> jsv \<Rightarrow> jstring" where
  "toString h v = (case v of None \<Rightarrow> lit ''undefined'' | Some j \<Rightarrow> toStr h j)"

section \<open>The workflow runtime: outputs, log and failure\<close>

text \<open>
  The effects of \<open>@actions/core\<close>: \<open>setOutput\<close> stores the value it is given under the
  name, \<open>info\<close> and \<open>warning\<close> append a log line, \<open>setFailed\<close> records the failure
  message of the run. \<open>sent\<close> lists the requests handed to the transport.
\<close>

datatype log_entry = Info jstring | Warning jstring

record core_state =
  outputs :: "jstring \<Rightarrow> jsv option"
  logged :: "log_entry list"
  failed :: "jstring option"
  sent :: "request list"

definition setOutput :: "jstring \<Rightarrow> jsv \<Rightarrow> core_state \<Rightarrow> core_state" where
  "setOutput name v st = st\<lparr>outputs := (outputs st)(name \<mapsto> v)\<rparr>"

definition info :: "jstring \<Rightarrow> core_state \<Rightarrow> core_state" where
  "info s st = st\<lparr>logged := logged st @ [Info s]\<rparr>"

definition warning :: "jstring \<Rightarrow> core_state \<Rightarrow> core_state" where
  "warning s st = st\<lparr>logged := logged st @ [Warning s]\<rparr>"

definition setFailed :: "jstring \<Rightarrow> core_state \<Rightarrow> core_state" where
  "setFailed s st = st\<lparr>failed := Some s\<rparr>"

definition initial_state :: core_state where
  "initial_state = \<lparr>outputs = Map.empty, logged = [], failed = None, sent = []\<rparr>"

section \<open>Response processing (output.ts)\<close>

datatype mode = Simple | Template

text \<open>\<open>parseResponse\<close>: the parsed body, or \<open>{raw: data}\<close> after a warning.\<close>

definition parseResponse :: "host \<Rightarrow> HttpResponse \<Rightarrow> core_state \<Rightarrow> json \<times> core_state" where
  "parseResponse h response st =
     (case JSON_parse h (data response) of
        Inr v \<Rightarrow> (v, st)
      | Inl err \<Rightarrow>
          (JObj (fmap_of_list [(lit ''raw'', JStr (data response))]),
           warning (lit ''Could not parse response as JSON'') st))"

text \<open>
  The functions below return the exception thrown, if any, with the state reached:
  the effects made before a throw stay.
\<close>

definition handleTemplateSuccess :: "host \<Rightarrow> json \<Rightarrow> core_state \<Rightarrow> exn option \<times> core_state" where
  "handleTemplateSuccess h responseData st =
     (case andThen (getProp (Some responseData) (lit ''data'')) (\<lambda>d. getProp d (lit ''commentId'')) of
        Inl e \<Rightarrow> (Some e, st)
      | Inr commentId \<Rightarrow>
     let st1 = setOutput (lit ''comment-id'') commentId st in
     (case andThen (getProp (Some responseData) (lit ''data'')) (\<lambda>d. getProp d (lit ''status'')) of
        Inl e \<Rightarrow> (Some e, st1)
      | Inr status \<Rightarrow>
     let st2 = setOutput (lit ''status'') status st1;
         st3 = info ([0xD83D, 0xDCDD] @ lit '' Comment ID: '' @ toString h commentId) st2;
         st4 = info ([0xD83D, 0xDCCA] @ lit '' Status: '' @ toString h status) st3 in
     (case andThen (getProp (Some responseData) (lit ''data'')) (\<lambda>d. getProp d (lit ''message'')) of
        Inl e \<Rightarrow> (Some e, st4)
      | Inr message \<Rightarrow>
          (None, info ([0xD83D, 0xDCA1] @ lit '' '' @ toString h message) st4))))"

definition handleSimpleSuccess :: "host \<Rightarrow> json \<Rightarrow> core_state \<Rightarrow> exn option \<times> core_state" where
  "handleSimpleSuccess h responseData st =
     (case getProp (Some responseData) (lit ''commentId'') of
        Inl e \<Rightarrow> (Some e, st)
      | Inr commentId \<Rightarrow>
     let st1 = setOutput (lit ''comment-id'') commentId st in
     (case getProp (Some responseData) (lit ''githubCommentId'') of
        Inl e \<Rightarrow> (Some e, st1)
      | Inr githubCommentId \<Rightarrow>
     let st2 = setOutput (lit ''github-comment-id'') githubCommentId st1 in
     (case getProp (Some responseData) (lit ''githubCommentUrl'') of
        Inl e \<Rightarrow> (Some e, st2)
      | Inr githubCommentUrl \<Rightarrow>
     let st3 = setOutput (lit ''github-comment-url'') githubCommentUrl st2;
         st4 = setOutput (lit ''status'') (Some (JStr (lit ''posted''))) st3;
         st5 = info ([0xD83D, 0xDCDD] @ lit '' Comment ID: '' @ toString h commentId) st4;
         st6 = info ([0xD83D, 0xDD17] @ lit '' GitHub Comment URL: '' @ toString h githubCommentUrl) st5 in
     (case getProp (Some responseData) (lit ''repository'') of
        Inl e \<Rightarrow> (Some e, st6)
      | Inr repository \<Rightarrow>
          (None, info ([0xD83D, 0xDCE6] @ lit '' Repository: '' @ toString h repository) st6)))))"

text \<open>
  \<open>typeof d === 'string' ? d : JSON.stringify(d, null, 2)\<close>, for a \<open>details\<close> value that
  was found truthy.
\<close>

definition detailsStr :: "host \<Rightarrow> jsv \<Rightarrow> jstring" where
  "detailsStr h d =
     (case d of
        Some (JStr s) \<Rightarrow> s
      | Some j \<Rightarrow> JSON_stringify_pretty h j
      | None \<Rightarrow> lit ''undefined'')"

text \<open>
  The variable \<open>errorLine\<close> when it is pushed: the number and the message of an entry,
  with the \<open>field\<close> and the \<open>code\<close> that are truthy.
\<close>

definition errorLine :: "host \<Rightarrow> nat \<Rightarrow> jsv \<Rightarrow> jsv \<Rightarrow> jsv \<Rightarrow> jstring" where
  "errorLine h index msg fld cod =
     lit ''  '' @ digits (index + 1) @ lit ''. '' @ toString h msg
     @ (if truthy fld then lit '' (field: '' @ toString h fld @ lit '')'' else [])
     @ (if truthy cod then lit '' ['' @ toString h cod @ lit '']'' else [])"

text \<open>The lines one entry of \<open>errors\<close> adds: the body of the \<open>forEach\<close> callback.\<close>

definition errorEntryLines :: "host \<Rightarrow> nat \<Rightarrow> json \<Rightarrow> exn + jstring list" where
  "errorEntryLines h index err =
     andThen (getProp (Some err) (lit ''message'')) (\<lambda>msg.
     andThen (getProp (Some err) (lit ''field'')) (\<lambda>fld.
     andThen (getProp (Some err) (lit ''code'')) (\<lambda>cod.
     andThen (getProp (Some err) (lit ''details'')) (\<lambda>details.
       Inr ([errorLine h index msg fld cod]
            @ (if truthy details then [lit ''     '' @ detailsStr h details] else []))))))"

fun forEachError :: "host \<Rightarrow> nat \<Rightarrow> json list \<Rightarrow> exn + jstring list" where
  "forEachError h index [] = Inr []"
| "forEachError h index (err # errs) =
     andThen (errorEntryLines h index err) (\<lambda>ls.
     andThen (forEachError h (Suc index) errs) (\<lambda>rest. Inr (ls @ rest)))"

definition statusHint :: "nat \<Rightarrow> jstring list" where
  "statusHint sc =
     (if sc = 500 then
        [[0xD83D, 0xDCA1] @ lit '' This is a server error. Check your API key and project configuration.'']
      else if sc = 401 then
        [[0xD83D, 0xDCA1] @ lit '' Authentication failed. Verify your API key is valid.'']
      else if sc = 403 then
        [[0xD83D, 0xDCA1] @ lit '' Access forbidden. Check your API key permissions.'']
      else if sc = 400 then
        [[0xD83D, 0xDCA1] @ lit '' Invalid request. Review the validation errors above.'']
      else [])"

text \<open>The array \<open>lines\<close> that \<open>handleApiErrorResponse\<close> builds.\<close>

definition errorLines :: "host \<Rightarrow> nat \<Rightarrow> json \<Rightarrow> exn + jstring list" where
  "errorLines h sc responseData =
     andThen (getProp (Some responseData) (lit ''error'')) (\<lambda>error.
     andThen (getProp (Some responseData) (lit ''errors'')) (\<lambda>errors.
     andThen (case errors of
                Some (JArr errs) \<Rightarrow>
                  andThen (forEachError h 0 errs) (\<lambda>ls.
                    Inr ([[], lit ''Server validation errors:''] @ ls))
              | _ \<Rightarrow>
                  andThen (getProp (Some responseData) (lit ''details'')) (\<lambda>details.
                    Inr (if truthy details
                         then [[], lit ''Details: '' @ detailsStr h details] else [])))
       (\<lambda>detailLines.
     andThen (getProp (Some responseData) (lit ''commentId'')) (\<lambda>commentId.
       Inr ([[0x274C] @ lit '' API returned error (status '' @ digits sc @ lit '')'']
            @ (if truthy error then [lit ''   '' @ toString h error] else [])
            @ detailLines
            @ (if truthy commentId then [[], lit ''Comment ID: '' @ toString h commentId] else [])
            @ [[]]
            @ statusHint sc)))))"

definition handleApiErrorResponse :: "host \<Rightarrow> nat \<Rightarrow> json \<Rightarrow> core_state \<Rightarrow> exn option \<times> core_state" where
  "handleApiErrorResponse h sc responseData st =
     (case errorLines h sc responseData of
        Inl e \<Rightarrow> (Some e, st)
      | Inr lines \<Rightarrow> (None, setFailed (join (lit ''\<newline>'') lines) st))"

definition processResponse :: "host \<Rightarrow> HttpResponse \<Rightarrow> mode \<Rightarrow> core_state \<Rightarrow> exn option \<times> core_state" where
  "processResponse h response m st =
     (let (responseData, st1) = parseResponse h response st;
          st2 = setOutput (lit ''response'') (Some (JStr (JSON_stringify h responseData))) st1
      in if 200 \<le> statusCode response \<and> statusCode response < 300 then
           (let st3 = info ([0x2705] @ lit '' Success! Status code: '' @ digits (statusCode response)) st2
            in if m = Template then handleTemplateSuccess h responseData st3
               else handleSimpleSuccess h responseData st3)
         else handleApiErrorResponse h (statusCode response) responseData st2)"

section \<open>Validation issues and their rendering (validation.ts)\<close>

text \<open>
  An issue of a \<open>ZodError\<close>, with the fields \<open>formatZodError\<close> reads. \<open>kind\<close> is the
  field the source reads as \<open>type\<close>. A field that an issue does not have is \<open>undefined\<close>.
\<close>

datatype pathseg = Key jstring | Index nat

record issue =
  code :: jstring
  path :: "pathseg list"
  message :: jstring
  expected :: jsv
  received :: jsv
  options :: jsv
  minimum :: jsv
  maximum :: jsv
  kind :: jsv

definition segStr :: "pathseg \<Rightarrow> jstring" where
  "segStr p = (case p of Key k \<Rightarrow> k | Index n \<Rightarrow> digits n)"

definition fieldPath :: "pathseg list \<Rightarrow> jstring" where
  "fieldPath p = (if length p > 0 then join (lit ''.'') (map segStr p) else lit ''input'')"

definition arrayJoin :: "host \<Rightarrow> jstring \<Rightarrow> json list \<Rightarrow> jstring" where
  "arrayJoin h sep xs = join sep (map (\<lambda>x. if x = JNull then [] else toStr h x) xs)"

text \<open>The lines one issue adds to \<open>messages\<close>: the body of the \<open>forEach\<close> callback.\<close>

definition issueLines :: "host \<Rightarrow> nat \<Rightarrow> issue \<Rightarrow> jstring list" where
  "issueLines h index err =
     [lit ''  '' @ digits (index + 1) @ lit ''. Field \"'' @ fieldPath (path err) @ lit ''\": ''
        @ message err]
     @ (if code err = lit ''invalid_type'' then
          (if truthy (expected err) \<and> truthy (received err)
           then [lit ''     Expected: '' @ toString h (expected err)
                   @ lit '', Received: '' @ toString h (received err)]
           else [])
        else if code err = lit ''invalid_value'' then
          (case options err of
             Some (JArr opts) \<Rightarrow> [lit ''     Allowed values: '' @ arrayJoin h (lit '', '') opts]
           | _ \<Rightarrow> [])
        else if code err = lit ''too_small'' then
          (if minimum err \<noteq> None then
             (if kind err = Some (JStr (lit ''string''))
              then [lit ''     Minimum length: '' @ toString h (minimum err) @ lit '' characters'']
              else if kind err = Some (JStr (lit ''number''))
              then [lit ''     Minimum value: '' @ toString h (minimum err)]
              else [])
           else [])
        else if code err = lit ''too_big'' then
          (if maximum err \<noteq> None then
             (if kind err = Some (JStr (lit ''string''))
              then [lit ''     Maximum length: '' @ toString h (maximum err) @ lit '' characters'']
              else if kind err = Some (JStr (lit ''number''))
              then [lit ''     Maximum value: '' @ toString h (maximum err)]
              else [])
           else [])
        else [])"

fun forEachIssue :: "host \<Rightarrow> nat \<Rightarrow> issue list \<Rightarrow> jstring list" where
  "forEachIssue h index [] = []"
| "forEachIssue h index (err # errs) = issueLines h index err @ forEachIssue h (Suc index) errs"

text \<open>The array \<open>messages\<close> of \<open>formatZodError\<close>, and the function itself.\<close>

definition formatZodError_messages :: "host \<Rightarrow> issue list \<Rightarrow> jstring list" where
  "formatZodError_messages h issues =
     [[0x274C] @ lit '' Validation failed:\<newline>'']
     @ forEachIssue h 0 issues
     @ [lit ''\<newline>'' @ [0xD83D, 0xDCA1]
          @ lit '' Please check your workflow file and ensure all inputs are correct.'']"

definition formatZodError :: "host \<Rightarrow> issue list \<Rightarrow> jstring" where
  "formatZodError h issues = join (lit ''\<newline>'') (formatZodError_messages h issues)"

section \<open>The schema library\<close>

text \<open>
  The schemas of the source are built from the combinators of the Zod library, which is
  not part of the repository. The combinators below give what a schema does with a
  value: the issues it raises, in order, and the value it yields. They follow Zod 4,
  whose issue code \<open>invalid_value\<close> the source tests for:
  \<^item> a value of the wrong type raises one \<open>invalid_type\<close> issue, and the checks of the
    schema are skipped;
  \<^item> the checks of a string run in order, each on the value the one before left, and
    every failing check raises its issue;
  \<^item> a number that is no integer raises \<open>invalid_type\<close> and the later checks are skipped;
  \<^item> an object schema runs every field of its shape, in order, and collects the issues
    of all of them, each with the key put in front of its path; with \<open>passthrough\<close> the
    keys outside the shape are copied to the result;
  \<^item> an issue carries \<open>expected\<close>, \<open>minimum\<close> or \<open>maximum\<close>; Zod 4 names the remaining
    details \<open>origin\<close> and \<open>values\<close>, so \<open>type\<close> and \<open>options\<close> are undefined, and
    \<open>received\<close> is set only for a number that is NaN or infinite.
\<close>

type_synonym schema = "jsv \<Rightarrow> issue list \<times> jsv"
type_synonym str_check = "jstring \<Rightarrow> issue list \<times> jstring"
type_synonym num_check = "rat \<Rightarrow> issue list \<times> bool"

definition mkIssue :: "jstring \<Rightarrow> jstring \<Rightarrow> issue" where
  "mkIssue c msg =
     \<lparr>code = c, path = [], message = msg, expected = None, received = None,
      options = None, minimum = None, maximum = None, kind = None\<rparr>"

definition invalid_type :: "host \<Rightarrow> jstring \<Rightarrow> jsv \<Rightarrow> issue" where
  "invalid_type h ex v =
     (mkIssue (lit ''invalid_type'') (zod_message h (lit ''invalid_type'') ex v))
       \<lparr>expected := Some (JStr ex)\<rparr>"

definition zparse :: "schema \<Rightarrow> jsv \<Rightarrow> issue list + jsv" where
  "zparse s v = (case s v of ([], out) \<Rightarrow> Inr out | (e # es, out) \<Rightarrow> Inl (e # es))"

definition chk_trim :: str_check where
  "chk_trim s = ([], trim s)"

definition chk_min :: "nat \<Rightarrow> jstring \<Rightarrow> str_check" where
  "chk_min n msg s =
     (if length s < n
      then [(mkIssue (lit ''too_small'') msg)\<lparr>minimum := Some (JNum (Fin (of_nat n)))\<rparr>]
      else [], s)"

definition chk_max :: "nat \<Rightarrow> jstring \<Rightarrow> str_check" where
  "chk_max n msg s =
     (if n < length s
      then [(mkIssue (lit ''too_big'') msg)\<lparr>maximum := Some (JNum (Fin (of_nat n)))\<rparr>]
      else [], s)"

text \<open>
  The URL check accepts what \<open>new URL\<close> accepts. The strings it is given by the run
  are trimmed already, and the value is left as it is.
\<close>

definition chk_url :: "host \<Rightarrow> jstring \<Rightarrow> str_check" where
  "chk_url h msg s = (if URL_parse h s = None then [mkIssue (lit ''invalid_format'') msg] else [], s)"

definition chk_startsWith :: "jstring \<Rightarrow> jstring \<Rightarrow> str_check" where
  "chk_startsWith p msg s = (if startsWith s p then [] else [mkIssue (lit ''invalid_format'') msg], s)"

fun run_checks :: "str_check list \<Rightarrow> jstring \<Rightarrow> issue list \<times> jstring" where
  "run_checks [] s = ([], s)"
| "run_checks (c # cs) s =
     (let (is1, s1) = c s; (is2, s2) = run_checks cs s1 in (is1 @ is2, s2))"

definition z_string :: "host \<Rightarrow> str_check list \<Rightarrow> schema" where
  "z_string h checks v =
     (case v of
        Some (JStr s) \<Rightarrow> (let (is, s') = run_checks checks s in (is, Some (JStr s')))
      | _ \<Rightarrow> ([invalid_type h (lit ''string'') v], v))"

definition chk_int :: "host \<Rightarrow> num_check" where
  "chk_int h q =
     (if of_int \<lfloor>q\<rfloor> \<noteq> q then ([invalid_type h (lit ''int'') (Some (JNum (Fin q)))], True)
      else if 9007199254740991 < q then
        ([(mkIssue (lit ''too_big'') (zod_message h (lit ''too_big'') (lit ''int'') (Some (JNum (Fin q)))))
            \<lparr>maximum := Some (JNum (Fin 9007199254740991))\<rparr>], False)
      else if q < - 9007199254740991 then
        ([(mkIssue (lit ''too_small'') (zod_message h (lit ''too_small'') (lit ''int'') (Some (JNum (Fin q)))))
            \<lparr>minimum := Some (JNum (Fin (- 9007199254740991)))\<rparr>], False)
      else ([], False))"

definition chk_gt :: "rat \<Rightarrow> jstring \<Rightarrow> num_check" where
  "chk_gt b msg q =
     (if b < q then [] else [(mkIssue (lit ''too_small'') msg)\<lparr>minimum := Some (JNum (Fin b))\<rparr>],
      False)"

definition chk_gte :: "rat \<Rightarrow> jstring \<Rightarrow> num_check" where
  "chk_gte b msg q =
     (if b \<le> q then [] else [(mkIssue (lit ''too_small'') msg)\<lparr>minimum := Some (JNum (Fin b))\<rparr>],
      False)"

fun run_num_checks :: "num_check list \<Rightarrow> rat \<Rightarrow> issue list" where
  "run_num_checks [] q = []"
| "run_num_checks (c # cs) q =
     (let (is, stop) = c q in if stop then is else is @ run_num_checks cs q)"

definition z_number :: "host \<Rightarrow> num_check list \<Rightarrow> schema" where
  "z_number h checks v =
     (case v of
        Some (JNum (Fin q)) \<Rightarrow> (run_num_checks checks q, v)
      | Some (JNum NaN) \<Rightarrow>
          ([(invalid_type h (lit ''number'') v)\<lparr>received := Some (JStr (lit ''NaN''))\<rparr>], v)
      | Some (JNum PosInf) \<Rightarrow>
          ([(invalid_type h (lit ''number'') v)\<lparr>received := Some (JStr (lit ''Infinity''))\<rparr>], v)
      | Some (JNum NegInf) \<Rightarrow>
          ([(invalid_type h (lit ''number'') v)\<lparr>received := Some (JStr (lit ''Infinity''))\<rparr>], v)
      | _ \<Rightarrow> ([invalid_type h (lit ''number'') v], v))"

definition z_enum :: "host \<Rightarrow> jstring list \<Rightarrow> jstring option \<Rightarrow> schema" where
  "z_enum h vals msg v =
     (if (\<exists>s \<in> set vals. v = Some (JStr s)) then ([], v)
      else ([mkIssue (lit ''invalid_value'')
               (case msg of
                  Some m \<Rightarrow> m
                | None \<Rightarrow> zod_message h (lit ''invalid_value'') (join (lit ''|'') vals) v)], v))"

definition z_any :: schema where
  "z_any v = ([], v)"

definition z_optional :: "schema \<Rightarrow> schema" where
  "z_optional s v = (if v = None then ([], None) else s v)"

text \<open>
  The elements of an array, each under its index. No schema of the source yields
  \<open>undefined\<close> for an element it accepts.
\<close>

fun array_elems :: "schema \<Rightarrow> nat \<Rightarrow> json list \<Rightarrow> issue list \<times> json list" where
  "array_elems s i [] = ([], [])"
| "array_elems s i (x # xs) =
     (let (is, out) = s (Some x); (is', outs) = array_elems s (Suc i) xs
      in (map (\<lambda>e. e\<lparr>path := Index i # path e\<rparr>) is @ is',
          (case out of Some y \<Rightarrow> y | None \<Rightarrow> x) # outs))"

definition z_array :: "host \<Rightarrow> schema \<Rightarrow> (nat \<times> jstring) option \<Rightarrow> schema" where
  "z_array h elem minlen v =
     (case v of
        Some (JArr xs) \<Rightarrow>
          (let (is, outs) = array_elems elem 0 xs
           in (is @ (case minlen of
                       Some (n, msg) \<Rightarrow>
                         if length xs < n
                         then [(mkIssue (lit ''too_small'') msg)
                                 \<lparr>minimum := Some (JNum (Fin (of_nat n)))\<rparr>]
                         else []
                     | None \<Rightarrow> []),
               Some (JArr outs)))
      | _ \<Rightarrow> ([invalid_type h (lit ''array'') v], v))"

definition z_object :: "host \<Rightarrow> (jstring \<times> schema) list \<Rightarrow> bool \<Rightarrow> schema" where
  "z_object h shape passthrough v =
     (case v of
        Some (JObj m) \<Rightarrow>
          (let results = map (\<lambda>(k, s). (k, s (fmlookup m k))) shape;
               issues = concat (map (\<lambda>(k, (is, out)). map (\<lambda>e. e\<lparr>path := Key k # path e\<rparr>) is) results);
               fields = concat (map (\<lambda>(k, (is, out)). case out of Some y \<Rightarrow> [(k, y)] | None \<Rightarrow> []) results);
               extras = (if passthrough then fmfilter (\<lambda>k. k \<notin> fst ` set shape) m else fmempty)
           in (issues, Some (JObj (fmadd extras (fmap_of_list fields)))))
      | _ \<Rightarrow> ([invalid_type h (lit ''object'') v], v))"

section \<open>The schemas of validation.ts\<close>

text \<open>
  Each schema as the source declares it. The shape of an object schema, the list of its
  keys with their schemas, has a name of its own.
\<close>

definition prNumberSchema :: "host \<Rightarrow> schema" where
  "prNumberSchema h =
     z_number h [chk_int h,
       chk_gt 0 (lit ''PR number must be a positive integer (e.g., 123, not 0 or negative numbers)'')]"

definition apiKeySchema :: "host \<Rightarrow> schema" where
  "apiKeySchema h = z_string h [chk_min 1 (lit ''API key is required and cannot be empty'')]"

definition commentSchema :: "host \<Rightarrow> schema" where
  "commentSchema h =
     z_string h [chk_trim,
       chk_min 1 (lit ''Comment text cannot be empty or contain only whitespace''),
       chk_max 65536 (lit ''Comment text is too long (maximum 65,536 characters)'')]"

definition stickyIdSchema :: "host \<Rightarrow> schema" where
  "stickyIdSchema h =
     z_optional (z_string h [chk_trim,
       chk_min 1 (lit ''sticky-id cannot be empty if provided''),
       chk_max 256 (lit ''sticky-id is too long (maximum 256 characters)'')])"

definition templateTypes :: "jstring list" where
  "templateTypes = [lit ''DEPLOYMENT'', lit ''TEST_RESULTS'', lit ''MIGRATION'', lit ''CUSTOM_TABLE'']"

definition templateTypeSchema :: "host \<Rightarrow> schema" where
  "templateTypeSchema h =
     z_enum h templateTypes
       (Some (lit ''Template must be one of: DEPLOYMENT, TEST_RESULTS, MIGRATION, CUSTOM_TABLE''))"

definition statusValues :: "jstring list" where
  "statusValues = [lit ''success'', lit ''failure'', lit ''pending'']"

definition deploymentShape :: "host \<Rightarrow> (jstring \<times> schema) list" where
  "deploymentShape h =
     [(lit ''environment'', z_string h [chk_min 1 (lit ''Environment is required'')]),
      (lit ''version'', z_optional (z_string h [])),
      (lit ''status'', z_optional (z_enum h statusValues None)),
      (lit ''url'', z_optional (z_string h [chk_url h (lit ''Deployment URL must be a valid URL'')])),
      (lit ''timestamp'', z_optional (z_string h []))]"

definition deploymentDataSchema :: "host \<Rightarrow> schema" where
  "deploymentDataSchema h = z_object h (deploymentShape h) True"

definition testResultsShape :: "host \<Rightarrow> (jstring \<times> schema) list" where
  "testResultsShape h =
     [(lit ''total'', z_number h [chk_int h, chk_gte 0 (lit ''Total tests must be a non-negative integer'')]),
      (lit ''passed'', z_number h [chk_int h, chk_gte 0 (lit ''Passed tests must be a non-negative integer'')]),
      (lit ''failed'', z_number h [chk_int h, chk_gte 0 (lit ''Failed tests must be a non-negative integer'')]),
      (lit ''skipped'',
       z_optional (z_number h [chk_int h, chk_gte 0 (lit ''Skipped tests must be a non-negative integer'')])),
      (lit ''duration'', z_optional (z_string h [])),
      (lit ''details'', z_optional (z_array h z_any None))]"

definition testResultsDataSchema :: "host \<Rightarrow> schema" where
  "testResultsDataSchema h = z_object h (testResultsShape h) True"

definition migrationShape :: "host \<Rightarrow> (jstring \<times> schema) list" where
  "migrationShape h =
     [(lit ''migrationName'', z_string h [chk_min 1 (lit ''Migration name is required'')]),
      (lit ''status'', z_optional (z_enum h statusValues None)),
      (lit ''duration'', z_optional (z_string h [])),
      (lit ''details'', z_optional (z_string h []))]"

definition migrationDataSchema :: "host \<Rightarrow> schema" where
  "migrationDataSchema h = z_object h (migrationShape h) True"

definition customTableShape :: "host \<Rightarrow> (jstring \<times> schema) list" where
  "customTableShape h =
     [(lit ''title'', z_optional (z_string h [])),
      (lit ''headers'',
         z_array h (z_string h []) (Some (1, lit ''At least one table header is required''))),
      (lit ''rows'',
         z_array h (z_array h (z_string h []) None)
           (Some (1, lit ''At least one table row is required'')))]"

definition customTableDataSchema :: "host \<Rightarrow> schema" where
  "customTableDataSchema h = z_object h (customTableShape h) True"

definition rawInputsSchema :: "host \<Rightarrow> schema" where
  "rawInputsSchema h =
     z_object h
       [(lit ''apiKey'', apiKeySchema h),
        (lit ''prNumber'', prNumberSchema h),
        (lit ''comment'', z_string h []),
        (lit ''template'', z_string h []),
        (lit ''templateData'', z_string h []),
        (lit ''stickyId'', z_string h []),
        (lit ''apiUrl'',
           z_string h [chk_url h (lit ''API URL must be a valid HTTPS URL''),
                       chk_startsWith (lit ''https://'') (lit ''API URL must use HTTPS for security'')])]
       False"

section \<open>Reading and validating the inputs (validation.ts)\<close>

record ActionInputs =
  apiKey :: jstring
  prNumber :: jsnum
  comment :: jstring
  template :: jstring
  templateData :: jstring
  stickyId :: jstring
  apiUrl :: jstring

record RequestConfig =
  endpoint :: jstring
  requestBody :: json
  mode :: mode

text \<open>
  \<open>parseInt(s, 10)\<close>: leading white space is skipped, a sign is read, then the longest
  run of decimal digits; NaN when there is no digit.
\<close>

definition isDigit :: "jschar \<Rightarrow> bool" where
  "isDigit c \<longleftrightarrow> 0x30 \<le> c \<and> c \<le> 0x39"

definition digitsValue :: "jstring \<Rightarrow> nat" where
  "digitsValue ds = foldl (\<lambda>a c. 10 * a + (unat c - 48)) 0 ds"

definition parseInt10 :: "jstring \<Rightarrow> jsnum" where
  "parseInt10 s =
     (let t = dropWhile isWhiteSpace s;
          neg = (t \<noteq> [] \<and> hd t = 0x2D);
          u = (if t \<noteq> [] \<and> (hd t = 0x2D \<or> hd t = 0x2B) then tl t else t);
          ds = takeWhile isDigit u
      in if ds = [] then NaN
         else Fin (of_int ((if neg then - 1 else 1) * int (digitsValue ds))))"

text \<open>
  \<open>core.getInput\<close>: a required input that is empty throws; the value is trimmed.
\<close>

definition core_getInput :: "host \<Rightarrow> jstring \<Rightarrow> bool \<Rightarrow> exn + jstring" where
  "core_getInput h name required =
     (let val = input_env h name
      in if required \<and> val = []
         then Inl (Error (lit ''Input required and not supplied: '' @ name))
         else Inr (trim val))"

definition getActionInputs :: "host \<Rightarrow> exn + ActionInputs" where
  "getActionInputs h =
     andThen (core_getInput h (lit ''api-key'') True) (\<lambda>k.
     andThen (core_getInput h (lit ''pr-number'') True) (\<lambda>n.
     andThen (core_getInput h (lit ''comment'') False) (\<lambda>c.
     andThen (core_getInput h (lit ''template'') False) (\<lambda>t.
     andThen (core_getInput h (lit ''template-data'') False) (\<lambda>d.
     andThen (core_getInput h (lit ''sticky-id'') False) (\<lambda>s.
     andThen (core_getInput h (lit ''api-url'') False) (\<lambda>u.
       Inr \<lparr>apiKey = k, prNumber = parseInt10 n, comment = c, template = t,
            templateData = d, stickyId = s,
            apiUrl = (if u \<noteq> [] then u else lit ''https://dev-herald.com/api/v1/github'')\<rparr>)))))))"

text \<open>The object \<open>inputs\<close> as the schema sees it.\<close>

definition inputsObject :: "ActionInputs \<Rightarrow> json" where
  "inputsObject inputs =
     JObj (fmap_of_list
       [(lit ''apiKey'', JStr (apiKey inputs)),
        (lit ''prNumber'', JNum (prNumber inputs)),
        (lit ''comment'', JStr (comment inputs)),
        (lit ''template'', JStr (template inputs)),
        (lit ''templateData'', JStr (templateData inputs)),
        (lit ''stickyId'', JStr (stickyId inputs)),
        (lit ''apiUrl'', JStr (apiUrl inputs))])"

definition validateInputs :: "host \<Rightarrow> ActionInputs \<Rightarrow> exn + unit" where
  "validateInputs h inputs =
     (case zparse (rawInputsSchema h) (Some (inputsObject inputs)) of
        Inl issues \<Rightarrow> Inl (Error (formatZodError h issues))
      | Inr out \<Rightarrow> Inr ())"

definition validateTemplateData :: "host \<Rightarrow> jstring \<Rightarrow> jsv \<Rightarrow> exn + jsv" where
  "validateTemplateData h tmpl dat =
     (let schema_parse = (\<lambda>s. case zparse s dat of
                                 Inl issues \<Rightarrow>
                                   Inl (Error (lit ''Invalid data for '' @ tmpl @ lit '' template:\<newline>''
                                                 @ formatZodError h issues))
                               | Inr out \<Rightarrow> Inr out)
      in if tmpl = lit ''DEPLOYMENT'' then schema_parse (deploymentDataSchema h)
         else if tmpl = lit ''TEST_RESULTS'' then schema_parse (testResultsDataSchema h)
         else if tmpl = lit ''MIGRATION'' then schema_parse (migrationDataSchema h)
         else if tmpl = lit ''CUSTOM_TABLE'' then schema_parse (customTableDataSchema h)
         else Inl (Error (lit ''Unknown template type: '' @ tmpl)))"

section \<open>Building the request (validation.ts)\<close>

definition mustProvideEither_message :: jstring where
  "mustProvideEither_message =
     [0x274C] @ lit '' Must provide either \"comment\" (for simple comments) or \"template\" (for template comments)\<newline>\<newline>''
     @ [0xD83D, 0xDCA1] @ lit '' Example with comment:\<newline>''
     @ lit ''  with:\<newline>''
     @ lit ''    comment: \"## Build Complete'' @ [0x5C] @ lit ''n'' @ [0x2705] @ lit '' All checks passed!\"\<newline>\<newline>''
     @ [0xD83D, 0xDCA1] @ lit '' Example with template:\<newline>''
     @ lit ''  with:\<newline>''
     @ lit ''    template: \"DEPLOYMENT\"\<newline>''
     @ lit ''    template-data: '' @ [0x27] @ lit ''{\"environment\": \"production\", \"status\": \"success\"}'' @ [0x27]"

definition cannotProvideBoth_message :: jstring where
  "cannotProvideBoth_message =
     [0x274C] @ lit '' Cannot provide both \"comment\" and \"template\" - choose one mode\<newline>\<newline>''
     @ [0xD83D, 0xDCA1] @ lit '' Either use:\<newline>''
     @ lit ''  - \"comment\" for simple markdown comments\<newline>''
     @ lit ''  - \"template\" + \"template-data\" for structured templates''"

definition templateDataRequired_message :: "jstring \<Rightarrow> jstring" where
  "templateDataRequired_message t =
     [0x274C] @ lit '' template-data is required when using template mode\<newline>\<newline>''
     @ [0xD83D, 0xDCA1] @ lit '' The '' @ t @ lit '' template requires JSON data. Example:\<newline>''
     @ lit ''  with:\<newline>''
     @ lit ''    template: \"'' @ t @ lit ''\"\<newline>''
     @ lit ''    template-data: '' @ [0x27] @ lit ''{\"key\": \"value\"}'' @ [0x27]"

definition invalidJson_message :: "jstring \<Rightarrow> jstring" where
  "invalidJson_message err =
     [0x274C] @ lit '' Invalid JSON in template-data: '' @ err @ lit ''\<newline>\<newline>''
     @ [0xD83D, 0xDCA1] @ lit '' Make sure your JSON is properly formatted:\<newline>''
     @ lit ''  - Use single quotes around the JSON string in YAML\<newline>''
     @ lit ''  - Escape special characters properly\<newline>''
     @ lit ''  - Validate JSON at https://jsonlint.com\<newline>\<newline>''
     @ lit ''Example:\<newline>''
     @ lit ''  template-data: '' @ [0x27] @ lit ''{\"environment\": \"production\", \"status\": \"success\"}'' @ [0x27]"

text \<open>
  The block \<open>Validate and add sticky ID if provided\<close>, the same in both modes: the
  body with \<open>stickyId\<close> added when the input is not blank, or the error of its schema.
\<close>

definition addStickyId :: "host \<Rightarrow> ActionInputs \<Rightarrow> (jstring, json) fmap \<Rightarrow> exn + (jstring, json) fmap" where
  "addStickyId h inputs body =
     (if stickyId inputs \<noteq> [] \<and> 0 < length (trim (stickyId inputs)) then
        (case zparse (stickyIdSchema h) (Some (JStr (stickyId inputs))) of
           Inl issues \<Rightarrow> Inl (Error (formatZodError h issues))
         | Inr validatedStickyId \<Rightarrow>
             Inr (case validatedStickyId of
                    Some v \<Rightarrow> fmupd (lit ''stickyId'') v body
                  | None \<Rightarrow> body))
      else Inr body)"

definition stickyInfo :: "host \<Rightarrow> (jstring, json) fmap \<Rightarrow> core_state \<Rightarrow> core_state" where
  "stickyInfo h body st =
     info ([0xD83D, 0xDD16] @ lit '' Sticky ID: '' @ toString h (fmlookup body (lit ''stickyId''))
             @ lit '' (will update existing comment if found)'') st"

text \<open>The branch \<open>if (hasTemplate)\<close> of \<open>buildRequestConfig\<close>.\<close>

definition templateMode :: "host \<Rightarrow> ActionInputs \<Rightarrow> core_state \<Rightarrow> (exn + RequestConfig) \<times> core_state" where
  "templateMode h inputs st =
     (case zparse (templateTypeSchema h) (Some (JStr (template inputs))) of
        Inl issues \<Rightarrow> (Inl (Error (formatZodError h issues)), st)
      | Inr validated \<Rightarrow>
     let validatedTemplate = toString h validated in
     if templateData inputs = [] \<or> length (trim (templateData inputs)) = 0 then
       (Inl (Error (templateDataRequired_message (template inputs))), st)
     else
     (case JSON_parse h (templateData inputs) of
        Inl err \<Rightarrow> (Inl (Error (invalidJson_message err)), st)
      | Inr parsedData \<Rightarrow>
     (case validateTemplateData h validatedTemplate (Some parsedData) of
        Inl e \<Rightarrow> (Inl e, st)
      | Inr validatedData \<Rightarrow>
     let body0 = fmap_of_list
           ([(lit ''prNumber'', JNum (prNumber inputs)),
             (lit ''template'', JStr validatedTemplate)]
            @ (case validatedData of Some d \<Rightarrow> [(lit ''data'', d)] | None \<Rightarrow> [])) in
     (case addStickyId h inputs body0 of
        Inl e \<Rightarrow> (Inl e, st)
      | Inr body \<Rightarrow>
     let st1 = info ([0xD83D, 0xDCCB] @ lit '' Using template mode: '' @ validatedTemplate) st;
         st2 = (if truthy (fmlookup body (lit ''stickyId'')) then stickyInfo h body st1 else st1)
     in (Inr \<lparr>endpoint = apiUrl inputs @ lit ''/comment/template'',
              requestBody = JObj body,
              mode = Template\<rparr>, st2)))))"

text \<open>The \<open>else\<close> branch of \<open>buildRequestConfig\<close>.\<close>

definition simpleMode :: "host \<Rightarrow> ActionInputs \<Rightarrow> core_state \<Rightarrow> (exn + RequestConfig) \<times> core_state" where
  "simpleMode h inputs st =
     (case zparse (commentSchema h) (Some (JStr (comment inputs))) of
        Inl issues \<Rightarrow> (Inl (Error (formatZodError h issues)), st)
      | Inr validatedComment \<Rightarrow>
     let st1 = info ([0xD83D, 0xDCAC] @ lit '' Using simple comment mode'') st;
         body0 = fmap_of_list
           ((case validatedComment of Some c \<Rightarrow> [(lit ''comment'', c)] | None \<Rightarrow> [])
            @ [(lit ''prNumber'', JNum (prNumber inputs))]) in
     (case addStickyId h inputs body0 of
        Inl e \<Rightarrow> (Inl e, st1)
      | Inr body \<Rightarrow>
     let st2 = (if stickyId inputs \<noteq> [] \<and> 0 < length (trim (stickyId inputs))
                then stickyInfo h body st1 else st1)
     in (Inr \<lparr>endpoint = apiUrl inputs @ lit ''/comment'',
              requestBody = JObj body,
              mode = Simple\<rparr>, st2)))"

definition buildRequestConfig :: "host \<Rightarrow> ActionInputs \<Rightarrow> core_state \<Rightarrow> (exn + RequestConfig) \<times> core_state" where
  "buildRequestConfig h inputs st =
     (let hasComment = 0 < length (trim (comment inputs));
          hasTemplate = 0 < length (trim (template inputs))
      in if \<not> hasComment \<and> \<not> hasTemplate then (Inl (Error mustProvideEither_message), st)
         else if hasComment \<and> hasTemplate then (Inl (Error cannotProvideBoth_message), st)
         else if hasTemplate then templateMode h inputs st
         else simpleMode h inputs st)"

section \<open>The HTTP client (api.js)\<close>

definition buildHeaders :: "jstring \<Rightarrow> (jstring \<times> jstring) list" where
  "buildHeaders k =
     [(lit ''Content-Type'', lit ''application/json''),
      (lit ''Authorization'', lit ''Bearer '' @ k),
      (lit ''User-Agent'', lit ''Dev-Herald-GitHub-Action/1.0'')]"

text \<open>
  \<open>makeHttpRequest\<close>: the promise rejects (here: the exception) when the URL does not
  parse or is not HTTPS; only after that is the request handed to the transport, which
  \<open>sent\<close> records.
\<close>

definition makeHttpRequest ::
  "host \<Rightarrow> jstring \<Rightarrow> jstring \<Rightarrow> (jstring \<times> jstring) list \<Rightarrow> json \<Rightarrow> core_state
     \<Rightarrow> (exn + HttpResponse) \<times> core_state" where
  "makeHttpRequest h u method headers body st =
     (case URL_parse h u of
        None \<Rightarrow> (Inl (InvalidURL u), st)
      | Some parsedUrl \<Rightarrow>
          if protocol parsedUrl \<noteq> lit ''https:'' then
            (Inl (Error (lit ''Only HTTPS URLs are allowed for security reasons. Got: ''
                           @ protocol parsedUrl)), st)
          else
            (let req = \<lparr>req_hostname = hostname parsedUrl,
                        req_port = (if port parsedUrl \<noteq> [] then port parsedUrl else lit ''443''),
                        req_path = pathname parsedUrl @ search parsedUrl,
                        req_method = method,
                        req_headers = headers
                          @ [(lit ''Content-Length'', digits (byteLength h (JSON_stringify h body)))],
                        req_body = JSON_stringify h body\<rparr>;
                 st1 = st\<lparr>sent := sent st @ [req]\<rparr>
             in case https_request h req of
                  Responded r \<Rightarrow> (Inr r, st1)
                | NetworkError m \<Rightarrow> (Inl (Error (lit ''Network error: '' @ m)), st1)))"

section \<open>The run\<close>

definition exn_message :: "exn \<Rightarrow> jstring" where
  "exn_message e =
     (case e of
        Error m \<Rightarrow> m
      | TypeError v k \<Rightarrow>
          lit ''Cannot read properties of '' @ (if v = None then lit ''undefined'' else lit ''null'')
            @ lit '' (reading '' @ [0x27] @ k @ [0x27] @ lit '')''
      | InvalidURL u \<Rightarrow> lit ''Invalid URL'')"

text \<open>
  Modelled from the spec: the entry point of the action (the function \<open>run\<close> of the
  module that imports validation.ts, api.ts and output.ts) is not among the sources.
  The specification gives its control flow: the inputs are read and validated, the
  request builder produces the request configuration, the HTTP client sends it with
  method POST, and the response processor interprets the answer; every error is
  terminal for the run and is reported through the failure channel, never thrown past
  the top-level handler.
\<close>

definition run :: "host \<Rightarrow> core_state \<Rightarrow> core_state" where
  "run h st =
     (case getActionInputs h of
        Inl e \<Rightarrow> setFailed (exn_message e) st
      | Inr inputs \<Rightarrow>
     (case validateInputs h inputs of
        Inl e \<Rightarrow> setFailed (exn_message e) st
      | Inr ok \<Rightarrow>
     (case buildRequestConfig h inputs st of
        (Inl e, st1) \<Rightarrow> setFailed (exn_message e) st1
      | (Inr config, st1) \<Rightarrow>
     (case makeHttpRequest h (endpoint config) (lit ''POST'') (buildHeaders (apiKey inputs))
             (requestBody config) st1 of
        (Inl e, st2) \<Rightarrow> setFailed (exn_message e) st2
      | (Inr response, st2) \<Rightarrow>
     (case processResponse h response (mode config) st2 of
        (Some e, st3) \<Rightarrow> setFailed (exn_message e) st3
      | (None, st3) \<Rightarrow> st3)))))"

text \<open>
  A host whose builtins are given by tables, for running the functions on concrete
  inputs: the inputs of the workflow, the strings \<open>JSON.parse\<close> accepts with their
  values, the strings \<open>new URL\<close> accepts with their parsed form, and the answer of the
  transport.
\<close>

definition table_host ::
  "(jstring \<times> jstring) list \<Rightarrow> (jstring \<times> json) list \<Rightarrow> (jstring \<times> url) list \<Rightarrow> transport_result \<Rightarrow> host" where
  "table_host ins jsons urls answer =
     \<lparr>JSON_parse = (\<lambda>s. case map_of jsons s of Some v \<Rightarrow> Inr v | None \<Rightarrow> Inl (lit ''Unexpected token'')),
      JSON_stringify = (\<lambda>v. lit ''json''),
      JSON_stringify_pretty = (\<lambda>v. lit ''json''),
      Number_toString = (\<lambda>n. lit ''number''),
      URL_parse = map_of urls,
      zod_message = (\<lambda>c ex v. lit ''Invalid input''),
      input_env = (\<lambda>n. case map_of ins n of Some v \<Rightarrow> v | None \<Rightarrow> []),
      byteLength = length,
      https_request = (\<lambda>r. answer)\<rparr>"


section \<open>Example hosts\<close>




definition hnone :: host where
  "hnone = table_host [] [] [] (NetworkError [])"



text \<open>
  Inputs with a given comment, template and template data, and a host whose
  \<open>JSON.parse\<close> accepts the DEPLOYMENT data of the examples.
\<close>

definition inputs_of :: "jstring \<Rightarrow> jstring \<Rightarrow> jstring \<Rightarrow> ActionInputs" where
  "inputs_of c t d =
     \<lparr>apiKey = lit ''key'', prNumber = Fin 1, comment = c, template = t, templateData = d,
      stickyId = [], apiUrl = lit ''https://dev-herald.com/api/v1/github''\<rparr>"

definition hdeploy :: host where
  "hdeploy = table_host []
     [(lit ''{\"environment\":\"production\"}'',
       JObj (fmap_of_list [(lit ''environment'', JStr (lit ''production''))]))]
     [] (NetworkError [])"

text \<open>
  The CUSTOM_TABLE data of the specification, with one field more, as the template data
  of a run.
\<close>

definition table_data :: "(jstring, json) fmap" where
  "table_data =
     fmap_of_list
       [(lit ''headers'', JArr [JStr (lit ''A''), JStr (lit ''B'')]),
        (lit ''rows'', JArr [JArr [JStr (lit ''1''), JStr (lit ''2'')]]),
        (lit ''note'', JStr (lit ''keep''))]"

definition htable :: host where
  "htable = table_host []
     [(lit ''{\"headers\":[\"A\",\"B\"],\"rows\":[[\"1\",\"2\"]],\"note\":\"keep\"}'', JObj table_data)]
     [] (NetworkError [])"

definition table_inputs :: ActionInputs where
  "table_inputs =
     inputs_of [] (lit ''CUSTOM_TABLE'')
       (lit ''{\"headers\":[\"A\",\"B\"],\"rows\":[[\"1\",\"2\"]],\"note\":\"keep\"}'')"



text \<open>
  Two runs. The parsed form of the default API URL; a workflow that gives the pull
  request number \<open>-7\<close>; and a workflow that gives the API URL \<open>http://x.com\<close>.
\<close>

definition default_url :: url where
  "default_url =
     \<lparr>protocol = lit ''https:'', hostname = lit ''dev-herald.com'', port = [],
      pathname = lit ''/api/v1/github'', search = []\<rparr>"


definition hhttp :: host where
  "hhttp = table_host
     [(lit ''api-key'', lit ''k''), (lit ''pr-number'', lit ''5''), (lit ''comment'', lit ''hi''),
      (lit ''api-url'', lit ''http://x.com'')]
     []
     [(lit ''https://dev-herald.com/api/v1/github'', default_url),
      (lit ''http://x.com'',
       \<lparr>protocol = lit ''http:'', hostname = lit ''x.com'', port = [],
        pathname = lit ''/'', search = []\<rparr>)]
     (NetworkError [])"

definition http_inputs :: ActionInputs where
  "http_inputs =
     \<lparr>apiKey = lit ''k'', prNumber = Fin 5, comment = lit ''hi'', template = [],
      templateData = [], stickyId = [], apiUrl = lit ''http://x.com''\<rparr>"

section \<open>Facts about the JavaScript primitives\<close>

lemma lit_inject: "lit a = lit b \<longleftrightarrow> a = b"
proof -
  have small: "(of_char c :: nat) < 2 ^ 16" for c :: char
  proof -
    have "(of_char c :: nat) mod 256 < 256" by (rule mod_less_divisor) simp
    then have "(of_char c :: nat) < 256" by (simp only: of_char_mod_256)
    also have "(256::nat) < 2 ^ 16" by simp
    finally show ?thesis .
  qed
  have "inj (\<lambda>c::char. (of_nat (of_char c) :: 16 word))"
  proof (rule injI)
    fix x y :: char
    assume "(of_nat (of_char x) :: 16 word) = of_nat (of_char y)"
    then have "unat (of_nat (of_char x) :: 16 word) = unat (of_nat (of_char y) :: 16 word)"
      by simp
    then have "(of_char x :: nat) = of_char y"
      using small[of x] small[of y] by (simp add: unat_of_nat take_bit_nat_eq_self)
    then show "x = y" by simp
  qed
  then show ?thesis unfolding lit_def by (simp add: inj_map_eq_map)
qed


lemma getProp_obj: "getProp (Some (JObj m)) k = Inr (fmlookup m k)"
  by (simp add: getProp_def propOf_def)


lemma getProp_undefined: "getProp None k = Inl (TypeError None k)"
  by (simp add: getProp_def)

lemma andThen_Inr [simp]: "andThen (Inr x) f = f x"
  by (simp add: andThen_def)

lemma andThen_Inl [simp]: "andThen (Inl e) f = Inl e"
  by (simp add: andThen_def)

lemma trim_x: "trim (lit ''x'') = lit ''x''"
  by (simp add: trim_def isWhiteSpace_def lit_def)

lemma trim_DEPLOYMENT: "trim (lit ''DEPLOYMENT'') = lit ''DEPLOYMENT''"
  by (simp add: trim_def isWhiteSpace_def lit_def)

lemma trim_empty: "trim [] = []"
  by (simp add: trim_def)

lemma lit_Nil_iff: "lit s = [] \<longleftrightarrow> s = []"
  by (simp add: lit_def)

lemma length_lit: "length (lit s) = length s"
  by (simp add: lit_def)

section \<open>Response processing: success\<close>



section \<open>Response processing: a body that is not JSON\<close>

lemma processResponse_simple_raw:
  assumes ok: "200 \<le> statusCode response" "statusCode response < 300"
    and body: "JSON_parse h (data response) = Inl err"
  shows "fst (processResponse h response Simple st) = None
         \<and> outputs (snd (processResponse h response Simple st)) (lit ''comment-id'') = Some None
         \<and> outputs (snd (processResponse h response Simple st)) (lit ''response'')
             = Some (Some (JStr (JSON_stringify h
                 (JObj (fmap_of_list [(lit ''raw'', JStr (data response))])))))"
  using assms
  by (simp add: processResponse_def parseResponse_def handleSimpleSuccess_def getProp_obj
      getProp_undefined setOutput_def info_def warning_def Let_def lit_inject)

text \<open>
  Claim C7. For every 2xx response whose body is not valid JSON, the body is wrapped as
  \<open>{raw: body}\<close> without throwing and output extraction proceeds on that shape, giving
  undefined outputs rather than an error, in simple and in template mode. The code does
  so in simple mode (\<open>processResponse_simple_raw\<close>). In template mode it does not:
  \<open>handleTemplateSuccess\<close> reads \<open>responseData.data.commentId\<close>, the wrapped body has no
  \<open>data\<close>, and the read throws a \<open>TypeError\<close> before any output of the comment is set.
\<close>

theorem processResponse_template_raw_throws:
  assumes ok: "200 \<le> statusCode response" "statusCode response < 300"
    and body: "JSON_parse h (data response) = Inl err"
  shows "fst (processResponse h response Template st) = Some (TypeError None (lit ''commentId''))
         \<and> outputs (snd (processResponse h response Template st)) (lit ''comment-id'')
             = outputs st (lit ''comment-id'')
         \<and> outputs (snd (processResponse h response Template st)) (lit ''status'')
             = outputs st (lit ''status'')"
  using assms
  by (simp add: processResponse_def parseResponse_def handleTemplateSuccess_def getProp_obj
      getProp_undefined setOutput_def info_def warning_def Let_def lit_inject)

theorem processResponse_template_raw_throws_witness:
  "200 \<le> (200::nat) \<and> (200::nat) < 300
   \<and> JSON_parse hnone (lit ''OK'') = Inl (lit ''Unexpected token'')
   \<and> fst (processResponse hnone \<lparr>statusCode = 200, data = lit ''OK''\<rparr> Template initial_state)
       = Some (TypeError None (lit ''commentId''))
   \<and> outputs (snd (processResponse hnone \<lparr>statusCode = 200, data = lit ''OK''\<rparr> Template initial_state))
        (lit ''comment-id'') = None"
proof -
  have ok: "200 \<le> statusCode \<lparr>statusCode = 200, data = lit ''OK''\<rparr>"
    "statusCode \<lparr>statusCode = 200, data = lit ''OK''\<rparr> < 300"
    by simp_all
  have body: "JSON_parse hnone (data \<lparr>statusCode = 200, data = lit ''OK''\<rparr>) = Inl (lit ''Unexpected token'')"
    by (simp add: hnone_def table_host_def)
  have e: "outputs initial_state (lit ''comment-id'') = None"
    by (simp add: initial_state_def)
  from processResponse_template_raw_throws[OF ok body, of initial_state] body e
  show ?thesis by simp
qed

section \<open>Response processing: failure\<close>










section \<open>Mode selection\<close>

lemma commentSchema_parse:
  "zparse (commentSchema h) (Some (JStr c)) =
     (if length (trim c) < 1 then
        Inl [(mkIssue (lit ''too_small'') (lit ''Comment text cannot be empty or contain only whitespace''))
               \<lparr>minimum := Some (JNum (Fin 1))\<rparr>]
      else if 65536 < length (trim c) then
        Inl [(mkIssue (lit ''too_big'') (lit ''Comment text is too long (maximum 65,536 characters)''))
               \<lparr>maximum := Some (JNum (Fin 65536))\<rparr>]
      else Inr (Some (JStr (trim c))))"
  by (simp add: zparse_def commentSchema_def z_string_def chk_trim_def chk_min_def chk_max_def)

lemma stickyIdSchema_parse:
  "zparse (stickyIdSchema h) (Some (JStr c)) =
     (if length (trim c) < 1 then
        Inl [(mkIssue (lit ''too_small'') (lit ''sticky-id cannot be empty if provided''))
               \<lparr>minimum := Some (JNum (Fin 1))\<rparr>]
      else if 256 < length (trim c) then
        Inl [(mkIssue (lit ''too_big'') (lit ''sticky-id is too long (maximum 256 characters)''))
               \<lparr>maximum := Some (JNum (Fin 256))\<rparr>]
      else Inr (Some (JStr (trim c))))"
  by (simp add: zparse_def stickyIdSchema_def z_optional_def z_string_def chk_trim_def chk_min_def chk_max_def)

lemma templateTypeSchema_parse:
  "zparse (templateTypeSchema h) (Some (JStr t)) =
     (if t \<in> set templateTypes then Inr (Some (JStr t))
      else Inl [mkIssue (lit ''invalid_value'')
                  (lit ''Template must be one of: DEPLOYMENT, TEST_RESULTS, MIGRATION, CUSTOM_TABLE'')])"
  by (auto simp add: zparse_def templateTypeSchema_def z_enum_def)


lemma join_Cons: "join sep (x # xs) = (if xs = [] then x else x @ sep @ join sep xs)"
  by (cases xs) simp_all

lemma formatZodError_prefix:
  "take 3 (formatZodError h issues) = [0x274C, 0x20, 0x56]"
  by (simp add: formatZodError_def formatZodError_messages_def join_Cons lit_def)

lemma mustProvideEither_prefix: "take 3 mustProvideEither_message = [0x274C, 0x20, 0x4D]"
  by (simp add: mustProvideEither_message_def lit_def)

lemma cannotProvideBoth_prefix: "take 3 cannotProvideBoth_message = [0x274C, 0x20, 0x43]"
  by (simp add: cannotProvideBoth_message_def lit_def)

lemma templateDataRequired_prefix: "take 3 (templateDataRequired_message t) = [0x274C, 0x20, 0x74]"
  by (simp add: templateDataRequired_message_def lit_def)

lemma invalidJson_prefix: "take 3 (invalidJson_message e) = [0x274C, 0x20, 0x49]"
  by (simp add: invalidJson_message_def lit_def)

lemma formatZodError_not_mode_message:
  "formatZodError h issues \<noteq> mustProvideEither_message"
  "formatZodError h issues \<noteq> cannotProvideBoth_message"
  using formatZodError_prefix[of h issues] mustProvideEither_prefix cannotProvideBoth_prefix
  by auto

lemma templateDataRequired_not_mode_message:
  "templateDataRequired_message t \<noteq> mustProvideEither_message"
  "templateDataRequired_message t \<noteq> cannotProvideBoth_message"
  using templateDataRequired_prefix[of t] mustProvideEither_prefix cannotProvideBoth_prefix
  by auto

lemma invalidJson_not_mode_message:
  "invalidJson_message e \<noteq> mustProvideEither_message"
  "invalidJson_message e \<noteq> cannotProvideBoth_message"
  using invalidJson_prefix[of e] mustProvideEither_prefix cannotProvideBoth_prefix
  by auto

lemma validateTemplateData_error:
  assumes "validateTemplateData h t d = Inl e"
  shows "\<exists>m. e = Error m \<and> (take 1 m = [0x49] \<or> take 1 m = [0x55])"
  using assms
  by (auto simp add: validateTemplateData_def Let_def lit_def split: if_splits sum.splits)

lemma validateTemplateData_not_mode_message:
  "validateTemplateData h t d \<noteq> Inl (Error mustProvideEither_message)"
  "validateTemplateData h t d \<noteq> Inl (Error cannotProvideBoth_message)"
proof -
  have a: "take 1 mustProvideEither_message = [0x274C]"
    by (simp add: mustProvideEither_message_def)
  have b: "take 1 cannotProvideBoth_message = [0x274C]"
    by (simp add: cannotProvideBoth_message_def)
  show "validateTemplateData h t d \<noteq> Inl (Error mustProvideEither_message)"
    using validateTemplateData_error[of h t d "Error mustProvideEither_message"] a by auto
  show "validateTemplateData h t d \<noteq> Inl (Error cannotProvideBoth_message)"
    using validateTemplateData_error[of h t d "Error cannotProvideBoth_message"] b by auto
qed

lemma addStickyId_not_mode_message:
  "addStickyId h inputs body \<noteq> Inl (Error mustProvideEither_message)"
  "addStickyId h inputs body \<noteq> Inl (Error cannotProvideBoth_message)"
  by (auto simp add: addStickyId_def formatZodError_not_mode_message split: sum.splits)

lemma templateMode_not_mode_message:
  "fst (templateMode h inputs st) \<noteq> Inl (Error mustProvideEither_message)"
  "fst (templateMode h inputs st) \<noteq> Inl (Error cannotProvideBoth_message)"
  using validateTemplateData_not_mode_message addStickyId_not_mode_message
  by (auto simp add: templateMode_def Let_def formatZodError_not_mode_message
      templateDataRequired_not_mode_message invalidJson_not_mode_message
      split: sum.splits if_splits)

lemma simpleMode_not_mode_message:
  "fst (simpleMode h inputs st) \<noteq> Inl (Error mustProvideEither_message)"
  "fst (simpleMode h inputs st) \<noteq> Inl (Error cannotProvideBoth_message)"
  using addStickyId_not_mode_message
  by (auto simp add: simpleMode_def Let_def formatZodError_not_mode_message
      split: sum.splits if_splits)

lemma templateMode_config:
  "fst (templateMode h inputs st) = Inr cfg \<Longrightarrow>
     mode cfg = Template \<and> endpoint cfg = apiUrl inputs @ lit ''/comment/template''"
  by (auto simp add: templateMode_def Let_def split: sum.splits if_splits)

lemma simpleMode_config:
  "fst (simpleMode h inputs st) = Inr cfg \<Longrightarrow>
     mode cfg = Simple \<and> endpoint cfg = apiUrl inputs @ lit ''/comment''"
  by (auto simp add: simpleMode_def Let_def split: sum.splits if_splits)

text \<open>
  Claim C3. Mode selection in \<open>buildRequestConfig\<close>, for every pair of comment and
  template inputs: when both are empty after trimming it fails with the message
  \<open>Must provide either ...\<close>; when both are non-empty after trimming it fails with the
  message \<open>Cannot provide both ...\<close>; when exactly one is non-empty after trimming,
  mode selection succeeds: the function continues as the branch of that mode, its
  result is neither of the two mode errors, and a configuration it returns has that
  mode and the endpoint of that mode.
\<close>

theorem buildRequestConfig_mode_selection:
  "(trim (comment inputs) = [] \<and> trim (template inputs) = [] \<longrightarrow>
      buildRequestConfig h inputs st = (Inl (Error mustProvideEither_message), st))
   \<and> (trim (comment inputs) \<noteq> [] \<and> trim (template inputs) \<noteq> [] \<longrightarrow>
      buildRequestConfig h inputs st = (Inl (Error cannotProvideBoth_message), st))
   \<and> (trim (comment inputs) \<noteq> [] \<and> trim (template inputs) = [] \<longrightarrow>
      buildRequestConfig h inputs st = simpleMode h inputs st
      \<and> fst (buildRequestConfig h inputs st) \<noteq> Inl (Error mustProvideEither_message)
      \<and> fst (buildRequestConfig h inputs st) \<noteq> Inl (Error cannotProvideBoth_message)
      \<and> (\<forall>cfg. fst (buildRequestConfig h inputs st) = Inr cfg \<longrightarrow>
            mode cfg = Simple \<and> endpoint cfg = apiUrl inputs @ lit ''/comment''))
   \<and> (trim (comment inputs) = [] \<and> trim (template inputs) \<noteq> [] \<longrightarrow>
      buildRequestConfig h inputs st = templateMode h inputs st
      \<and> fst (buildRequestConfig h inputs st) \<noteq> Inl (Error mustProvideEither_message)
      \<and> fst (buildRequestConfig h inputs st) \<noteq> Inl (Error cannotProvideBoth_message)
      \<and> (\<forall>cfg. fst (buildRequestConfig h inputs st) = Inr cfg \<longrightarrow>
            mode cfg = Template \<and> endpoint cfg = apiUrl inputs @ lit ''/comment/template''))"
  using templateMode_not_mode_message[of h inputs st] simpleMode_not_mode_message[of h inputs st]
    templateMode_config[of h inputs st] simpleMode_config[of h inputs st]
  by (simp add: buildRequestConfig_def Let_def)

theorem buildRequestConfig_mode_selection_witness:
  "buildRequestConfig hdeploy (inputs_of [] [] []) initial_state
     = (Inl (Error mustProvideEither_message), initial_state)
   \<and> buildRequestConfig hdeploy (inputs_of (lit ''x'') (lit ''DEPLOYMENT'') []) initial_state
     = (Inl (Error cannotProvideBoth_message), initial_state)
   \<and> (\<exists>cfg. fst (buildRequestConfig hdeploy (inputs_of (lit ''x'') [] []) initial_state) = Inr cfg
        \<and> mode cfg = Simple)
   \<and> (\<exists>cfg. fst (buildRequestConfig hdeploy
          (inputs_of [] (lit ''DEPLOYMENT'') (lit ''{\"environment\":\"production\"}'')) initial_state) = Inr cfg
        \<and> mode cfg = Template)"
proof -
  have a: "buildRequestConfig hdeploy (inputs_of [] [] []) initial_state
     = (Inl (Error mustProvideEither_message), initial_state)"
    using buildRequestConfig_mode_selection[of "inputs_of [] [] []" hdeploy initial_state]
    by (simp add: inputs_of_def trim_empty)
  have b: "buildRequestConfig hdeploy (inputs_of (lit ''x'') (lit ''DEPLOYMENT'') []) initial_state
     = (Inl (Error cannotProvideBoth_message), initial_state)"
    using buildRequestConfig_mode_selection[of "inputs_of (lit ''x'') (lit ''DEPLOYMENT'') []" hdeploy initial_state]
    by (simp add: inputs_of_def trim_x trim_DEPLOYMENT lit_Nil_iff)
  have c0: "\<exists>cfg. fst (simpleMode hdeploy (inputs_of (lit ''x'') [] []) initial_state) = Inr cfg"
    by (simp add: simpleMode_def commentSchema_parse inputs_of_def trim_x addStickyId_def Let_def lit_Nil_iff length_lit)
  have c: "\<exists>cfg. fst (buildRequestConfig hdeploy (inputs_of (lit ''x'') [] []) initial_state) = Inr cfg
        \<and> mode cfg = Simple"
    using buildRequestConfig_mode_selection[of "inputs_of (lit ''x'') [] []" hdeploy initial_state] c0
    by (auto simp add: inputs_of_def trim_x trim_empty lit_Nil_iff)
  let ?i = "inputs_of [] (lit ''DEPLOYMENT'') (lit ''{\"environment\":\"production\"}'')"
  have p: "JSON_parse hdeploy (lit ''{\"environment\":\"production\"}'')
             = Inr (JObj (fmap_of_list [(lit ''environment'', JStr (lit ''production''))]))"
    by (simp add: hdeploy_def table_host_def)
  have v: "\<exists>out. validateTemplateData hdeploy (lit ''DEPLOYMENT'')
             (Some (JObj (fmap_of_list [(lit ''environment'', JStr (lit ''production''))]))) = Inr out"
    by (simp add: validateTemplateData_def deploymentDataSchema_def deploymentShape_def z_object_def z_string_def
        chk_min_def z_optional_def zparse_def Let_def lit_inject length_lit)
  have t: "lit ''DEPLOYMENT'' \<in> set templateTypes"
    by (simp add: templateTypes_def)
  have n: "trim (lit ''{\"environment\":\"production\"}'') \<noteq> []"
    by (simp add: trim_def isWhiteSpace_def lit_def)
  have d0: "\<exists>cfg. fst (templateMode hdeploy ?i initial_state) = Inr cfg"
    using v n
    by (auto simp add: templateMode_def templateTypeSchema_parse t p inputs_of_def
        toString_def addStickyId_def Let_def lit_Nil_iff)
  have d: "\<exists>cfg. fst (buildRequestConfig hdeploy ?i initial_state) = Inr cfg \<and> mode cfg = Template"
    using buildRequestConfig_mode_selection[of ?i hdeploy initial_state] d0
    by (auto simp add: inputs_of_def trim_DEPLOYMENT trim_empty lit_Nil_iff)
  from a b c d show ?thesis by blast
qed

section \<open>The comment of simple mode\<close>










section \<open>A template name with surrounding white space\<close>







section \<open>Template data: the round trip of CUSTOM_TABLE\<close>

lemma z_object_obj:
  "z_object h shape p (Some (JObj m)) =
     (concat (map (\<lambda>(k, s). map (\<lambda>e. e\<lparr>path := Key k # path e\<rparr>) (fst (s (fmlookup m k)))) shape),
      Some (JObj (fmadd (if p then fmfilter (\<lambda>k. k \<notin> fst ` set shape) m else fmempty)
        (fmap_of_list (concat (map (\<lambda>(k, s). case snd (s (fmlookup m k)) of
                                               Some y \<Rightarrow> [(k, y)] | None \<Rightarrow> []) shape))))))"
  by (simp add: z_object_def Let_def split_def comp_def cong: option.case_cong)

lemma z_object_not_obj:
  "(\<forall>m. v \<noteq> Some (JObj m)) \<Longrightarrow> z_object h shape p v = ([invalid_type h (lit ''object'') v], v)"
  by (auto simp add: z_object_def split: option.splits json.splits)

lemma map_of_shape_fields:
  "map_of (concat (map (\<lambda>(k, s). case fmlookup m k of Some y \<Rightarrow> [(k, y)] | None \<Rightarrow> [])
                    (shape :: (jstring \<times> schema) list))) x
     = (if x \<in> fst ` set shape then fmlookup m x else None)"
proof (induction shape)
  case Nil
  then show ?case by simp
next
  case (Cons a shape)
  obtain k s where a: "a = (k, s)" by (cases a)
  show ?case
  proof (cases "fmlookup m k")
    case None
    with Cons a show ?thesis by auto
  next
    case (Some y)
    with Cons a show ?thesis by auto
  qed
qed

lemma fmlookup_fmadd_case:
  "fmlookup (fmadd a b) x = (case fmlookup b x of Some y \<Rightarrow> Some y | None \<Rightarrow> fmlookup a x)"
  by (cases "fmlookup b x") (auto simp add: fmlookup_dom_iff)

lemma z_object_passthrough_id:
  assumes fields: "\<And>k s v. (k, s) \<in> set shape \<Longrightarrow> fst (s v) = [] \<Longrightarrow> snd (s v) = v"
    and ok: "fst (z_object h shape True v) = []"
  shows "snd (z_object h shape True v) = v"
proof (cases "\<exists>m. v = Some (JObj m)")
  case False
  then show ?thesis using ok by (simp add: z_object_not_obj)
next
  case True
  then obtain m where v: "v = Some (JObj m)" by blast
  from ok have none: "\<forall>(k, s) \<in> set shape. fst (s (fmlookup m k)) = []"
    unfolding v z_object_obj by auto
  have same: "map (\<lambda>(k, s). case snd (s (fmlookup m k)) of Some y \<Rightarrow> [(k, y)] | None \<Rightarrow> []) shape
      = map (\<lambda>(k, s). case fmlookup m k of Some y \<Rightarrow> [(k, y)] | None \<Rightarrow> []) shape"
    using none fields by (intro map_cong) auto
  have "fmadd (fmfilter (\<lambda>k. k \<notin> fst ` set shape) m)
          (fmap_of_list (concat (map (\<lambda>(k, s). case fmlookup m k of
                                               Some y \<Rightarrow> [(k, y)] | None \<Rightarrow> []) shape))) = m"
  proof (rule fmap_ext)
    fix x
    show "fmlookup (fmadd (fmfilter (\<lambda>k. k \<notin> fst ` set shape) m)
          (fmap_of_list (concat (map (\<lambda>(k, s). case fmlookup m k of
                                               Some y \<Rightarrow> [(k, y)] | None \<Rightarrow> []) shape)))) x
          = fmlookup m x"
      by (simp add: fmlookup_fmadd_case fmlookup_of_list map_of_shape_fields del: fmlookup_add
          split: option.splits)
  qed
  then show ?thesis unfolding v z_object_obj by (simp add: same)
qed

lemma run_checks_Nil_id: "z_string h [] v = ([], v) \<or> fst (z_string h [] v) \<noteq> []"
  by (auto simp add: z_string_def split: option.splits json.splits)

lemma z_string_id: "fst (z_string h [] v) = [] \<Longrightarrow> snd (z_string h [] v) = v"
  using run_checks_Nil_id[of h v] by auto

lemma z_optional_id:
  "(\<And>v. fst (s v) = [] \<Longrightarrow> snd (s v) = v) \<Longrightarrow> fst (z_optional s v) = [] \<Longrightarrow> snd (z_optional s v) = v"
  by (auto simp add: z_optional_def split: if_splits)

lemma array_elems_id:
  assumes el: "\<And>x. fst (s (Some x)) = [] \<Longrightarrow> snd (s (Some x)) = Some x"
  shows "fst (array_elems s i xs) = [] \<Longrightarrow> snd (array_elems s i xs) = xs"
proof (induction xs arbitrary: i)
  case Nil
  then show ?case by simp
next
  case (Cons x xs)
  from Cons.prems have a: "fst (s (Some x)) = []" and b: "fst (array_elems s (Suc i) xs) = []"
    by (auto simp add: split_def Let_def)
  from Cons.IH[OF b] el[OF a] show ?case
    by (simp add: split_def Let_def)
qed

lemma z_array_id:
  assumes el: "\<And>x. fst (s (Some x)) = [] \<Longrightarrow> snd (s (Some x)) = Some x"
    and ok: "fst (z_array h s ml v) = []"
  shows "snd (z_array h s ml v) = v"
proof (cases "\<exists>xs. v = Some (JArr xs)")
  case False
  then show ?thesis using ok by (auto simp add: z_array_def split: option.splits json.splits)
next
  case True
  then obtain xs where v: "v = Some (JArr xs)" by blast
  from ok have "fst (array_elems s 0 xs) = []"
    unfolding v by (simp add: z_array_def split_def Let_def)
  from array_elems_id[of s 0 xs, OF el this] show ?thesis
    unfolding v by (simp add: z_array_def split_def Let_def)
qed

lemma customTableShape_id:
  assumes "(k, s) \<in> set (customTableShape h)" "fst (s v) = []"
  shows "snd (s v) = v"
proof -
  have str: "\<And>v. fst (z_string h [] v) = [] \<Longrightarrow> snd (z_string h [] v) = v"
    by (rule z_string_id)
  have arr: "\<And>ml v. fst (z_array h (z_string h []) ml v) = [] \<Longrightarrow> snd (z_array h (z_string h []) ml v) = v"
    by (rule z_array_id[OF str])
  have arr2: "\<And>ml ml' v. fst (z_array h (z_array h (z_string h []) ml') ml v) = []
       \<Longrightarrow> snd (z_array h (z_array h (z_string h []) ml') ml v) = v"
    by (rule z_array_id[OF arr])
  from assms show ?thesis
    using z_optional_id[of "z_string h []" v, OF str] arr arr2
    by (auto simp add: customTableShape_def)
qed

lemma customTable_parse_id:
  "zparse (customTableDataSchema h) d = Inr out \<Longrightarrow> out = d"
proof -
  assume p: "zparse (customTableDataSchema h) d = Inr out"
  then have ok: "fst (z_object h (customTableShape h) True d) = []"
    and out: "out = snd (z_object h (customTableShape h) True d)"
    by (auto simp add: zparse_def customTableDataSchema_def split: prod.splits list.splits)
  have "snd (z_object h (customTableShape h) True d) = d"
  proof (rule z_object_passthrough_id[OF _ ok])
    fix k s v
    assume "(k, s) \<in> set (customTableShape h)" "fst (s v) = []"
    then show "snd (s v) = v" by (rule customTableShape_id)
  qed
  with out show ?thesis by simp
qed

lemma validateTemplateData_customTable:
  "validateTemplateData h (lit ''CUSTOM_TABLE'') d =
     (case zparse (customTableDataSchema h) d of
        Inl issues \<Rightarrow> Inl (Error (lit ''Invalid data for '' @ lit ''CUSTOM_TABLE'' @ lit '' template:\<newline>''
                                     @ formatZodError h issues))
      | Inr out \<Rightarrow> Inr out)"
  by (simp add: validateTemplateData_def Let_def lit_inject)

lemma validateTemplateData_customTable_id:
  "validateTemplateData h (lit ''CUSTOM_TABLE'') d = Inr out \<Longrightarrow> out = d"
  using customTable_parse_id[of h d out]
  by (auto simp add: validateTemplateData_customTable split: sum.splits)

lemma customTable_example_accepted:
  assumes hd: "fmlookup m (lit ''headers'') = Some (JArr [JStr a, JStr b])"
    and rw: "fmlookup m (lit ''rows'') = Some (JArr [JArr [JStr x, JStr y]])"
    and ti: "\<forall>j. fmlookup m (lit ''title'') = Some j \<longrightarrow> (\<exists>s. j = JStr s)"
  shows "validateTemplateData h (lit ''CUSTOM_TABLE'') (Some (JObj m)) = Inr (Some (JObj m))"
proof -
  have t: "fst (z_optional (z_string h []) (fmlookup m (lit ''title''))) = []"
    using ti by (cases "fmlookup m (lit ''title'')") (auto simp add: z_optional_def z_string_def)
  have "fst (z_object h (customTableShape h) True (Some (JObj m))) = []"
    using t by (simp add: z_object_obj customTableShape_def hd rw z_array_def z_string_def Let_def)
  then obtain out where "zparse (customTableDataSchema h) (Some (JObj m)) = Inr out"
    by (cases "z_object h (customTableShape h) True (Some (JObj m))")
       (simp add: zparse_def customTableDataSchema_def)
  with customTable_parse_id[OF this] show ?thesis
    by (simp add: validateTemplateData_customTable)
qed

lemma templateMode_customTable_data:
  assumes tmpl: "template inputs = lit ''CUSTOM_TABLE''"
    and json: "JSON_parse h (templateData inputs) = Inr d"
    and cfg: "fst (templateMode h inputs st) = Inr cfg"
  shows "propOf (requestBody cfg) (lit ''data'') = Some d"
proof -
  have t: "lit ''CUSTOM_TABLE'' \<in> set templateTypes" by (simp add: templateTypes_def)
  from cfg show ?thesis
    using validateTemplateData_customTable_id[of h "Some d"]
    by (auto simp add: templateMode_def templateTypeSchema_parse tmpl t json toString_def Let_def
        addStickyId_def stickyIdSchema_parse propOf_def lit_inject
        split: if_splits sum.splits)
qed

lemma templateMode_customTable_ok:
  assumes tmpl: "template inputs = lit ''CUSTOM_TABLE''"
    and json: "JSON_parse h (templateData inputs) = Inr d"
    and given: "trim (templateData inputs) \<noteq> []"
    and valid: "validateTemplateData h (lit ''CUSTOM_TABLE'') (Some d) = Inr (Some d)"
    and sticky: "length (trim (stickyId inputs)) \<le> 256"
  shows "\<exists>cfg. fst (templateMode h inputs st) = Inr cfg"
proof -
  have t: "lit ''CUSTOM_TABLE'' \<in> set templateTypes" by (simp add: templateTypes_def)
  from given have g: "templateData inputs \<noteq> []" by (auto simp add: trim_def)
  show ?thesis
    using given g sticky
    by (auto simp add: templateMode_def templateTypeSchema_parse tmpl t json toString_def Let_def
        valid addStickyId_def stickyIdSchema_parse)
qed

text \<open>
  Claim C4. Validation of CUSTOM_TABLE data is the identity on the data it accepts:
  what \<open>validateTemplateData\<close> returns is the parsed object itself, with its title,
  headers, rows and every other field it has, and that object is the \<open>data\<close> field of
  the request body of every configuration \<open>buildRequestConfig\<close> returns. An object with
  two string headers and one row of two strings (and a title that, if present, is a
  string) is accepted whatever other fields it has, and with a valid sticky id the
  request is built with it.
\<close>

theorem customTable_roundtrip:
  "(\<forall>out. validateTemplateData h (lit ''CUSTOM_TABLE'') d = Inr out \<longrightarrow> out = d)
   \<and> (fmlookup m (lit ''headers'') = Some (JArr [JStr a, JStr b])
        \<and> fmlookup m (lit ''rows'') = Some (JArr [JArr [JStr x, JStr y]])
        \<and> (\<forall>j. fmlookup m (lit ''title'') = Some j \<longrightarrow> (\<exists>s. j = JStr s))
       \<longrightarrow> validateTemplateData h (lit ''CUSTOM_TABLE'') (Some (JObj m)) = Inr (Some (JObj m)))
   \<and> (template inputs = lit ''CUSTOM_TABLE'' \<and> trim (comment inputs) = []
        \<and> JSON_parse h (templateData inputs) = Inr parsed
       \<longrightarrow> (\<forall>cfg. fst (buildRequestConfig h inputs st) = Inr cfg \<longrightarrow>
               mode cfg = Template \<and> propOf (requestBody cfg) (lit ''data'') = Some parsed)
           \<and> (trim (templateData inputs) \<noteq> []
                \<and> validateTemplateData h (lit ''CUSTOM_TABLE'') (Some parsed) = Inr (Some parsed)
                \<and> length (trim (stickyId inputs)) \<le> 256
               \<longrightarrow> (\<exists>cfg. fst (buildRequestConfig h inputs st) = Inr cfg
                      \<and> propOf (requestBody cfg) (lit ''data'') = Some parsed)))"
proof (intro conjI impI allI)
  fix out assume "validateTemplateData h (lit ''CUSTOM_TABLE'') d = Inr out"
  then show "out = d" by (rule validateTemplateData_customTable_id)
next
  assume "fmlookup m (lit ''headers'') = Some (JArr [JStr a, JStr b])
        \<and> fmlookup m (lit ''rows'') = Some (JArr [JArr [JStr x, JStr y]])
        \<and> (\<forall>j. fmlookup m (lit ''title'') = Some j \<longrightarrow> (\<exists>s. j = JStr s))"
  then show "validateTemplateData h (lit ''CUSTOM_TABLE'') (Some (JObj m)) = Inr (Some (JObj m))"
    using customTable_example_accepted[of m a b x y h] by blast
next
  fix cfg
  assume a: "template inputs = lit ''CUSTOM_TABLE'' \<and> trim (comment inputs) = []
        \<and> JSON_parse h (templateData inputs) = Inr parsed"
    and cfg: "fst (buildRequestConfig h inputs st) = Inr cfg"
  from a have tmpl: "template inputs = lit ''CUSTOM_TABLE''"
    and json: "JSON_parse h (templateData inputs) = Inr parsed" by blast+
  have ne: "trim (template inputs) \<noteq> []"
    by (simp add: tmpl trim_def isWhiteSpace_def lit_def)
  have eq: "buildRequestConfig h inputs st = templateMode h inputs st"
    using ne a by (simp add: buildRequestConfig_def)
  from cfg show "mode cfg = Template"
    unfolding eq using templateMode_config by blast
  from cfg show "propOf (requestBody cfg) (lit ''data'') = Some parsed"
    unfolding eq using templateMode_customTable_data[OF tmpl json] by blast
next
  assume a: "template inputs = lit ''CUSTOM_TABLE'' \<and> trim (comment inputs) = []
        \<and> JSON_parse h (templateData inputs) = Inr parsed"
    and b: "trim (templateData inputs) \<noteq> []
                \<and> validateTemplateData h (lit ''CUSTOM_TABLE'') (Some parsed) = Inr (Some parsed)
                \<and> length (trim (stickyId inputs)) \<le> 256"
  from a have tmpl: "template inputs = lit ''CUSTOM_TABLE''"
    and json: "JSON_parse h (templateData inputs) = Inr parsed" by blast+
  from b have given: "trim (templateData inputs) \<noteq> []"
    and valid: "validateTemplateData h (lit ''CUSTOM_TABLE'') (Some parsed) = Inr (Some parsed)"
    and sticky: "length (trim (stickyId inputs)) \<le> 256" by blast+
  have ne: "trim (template inputs) \<noteq> []"
    by (simp add: tmpl trim_def isWhiteSpace_def lit_def)
  have eq: "buildRequestConfig h inputs st = templateMode h inputs st"
    using ne a by (simp add: buildRequestConfig_def)
  show "\<exists>cfg. fst (buildRequestConfig h inputs st) = Inr cfg
                      \<and> propOf (requestBody cfg) (lit ''data'') = Some parsed"
    unfolding eq
    using templateMode_customTable_ok[OF tmpl json given valid sticky, of st]
      templateMode_customTable_data[OF tmpl json, of st]
    by blast
qed

theorem customTable_roundtrip_witness:
  "template table_inputs = lit ''CUSTOM_TABLE''
   \<and> trim (comment table_inputs) = []
   \<and> JSON_parse htable (templateData table_inputs) = Inr (JObj table_data)
   \<and> fmlookup table_data (lit ''note'') = Some (JStr (lit ''keep''))
   \<and> validateTemplateData htable (lit ''CUSTOM_TABLE'') (Some (JObj table_data))
        = Inr (Some (JObj table_data))
   \<and> (\<exists>cfg. fst (buildRequestConfig htable table_inputs initial_state) = Inr cfg
          \<and> propOf (requestBody cfg) (lit ''data'') = Some (JObj table_data))"
proof -
  have tmpl: "template table_inputs = lit ''CUSTOM_TABLE''"
    by (simp add: table_inputs_def inputs_of_def)
  have nocomment: "trim (comment table_inputs) = []"
    by (simp add: table_inputs_def inputs_of_def trim_empty)
  have json: "JSON_parse htable (templateData table_inputs) = Inr (JObj table_data)"
    by (simp add: table_inputs_def inputs_of_def htable_def table_host_def)
  have given: "trim (templateData table_inputs) \<noteq> []"
    by (simp add: table_inputs_def inputs_of_def trim_def isWhiteSpace_def lit_def)
  have sticky: "length (trim (stickyId table_inputs)) \<le> 256"
    by (simp add: table_inputs_def inputs_of_def trim_empty)
  have extra: "fmlookup table_data (lit ''note'') = Some (JStr (lit ''keep''))"
    by (simp add: table_data_def lit_inject)
  have hd: "fmlookup table_data (lit ''headers'') = Some (JArr [JStr (lit ''A''), JStr (lit ''B'')])"
    by (simp add: table_data_def lit_inject)
  have rw: "fmlookup table_data (lit ''rows'') = Some (JArr [JArr [JStr (lit ''1''), JStr (lit ''2'')]])"
    by (simp add: table_data_def lit_inject)
  have ti: "\<forall>j. fmlookup table_data (lit ''title'') = Some j \<longrightarrow> (\<exists>s. j = JStr s)"
    by (simp add: table_data_def lit_inject)
  note T = customTable_roundtrip[of htable "Some (JObj table_data)" table_data
      "lit ''A''" "lit ''B''" "lit ''1''" "lit ''2''" table_inputs "JObj table_data" initial_state]
  from T hd rw ti
  have v: "validateTemplateData htable (lit ''CUSTOM_TABLE'') (Some (JObj table_data))
        = Inr (Some (JObj table_data))"
    by blast
  from T tmpl nocomment json given v sticky
  have "\<exists>cfg. fst (buildRequestConfig htable table_inputs initial_state) = Inr cfg
          \<and> propOf (requestBody cfg) (lit ''data'') = Some (JObj table_data)"
    by blast
  with tmpl nocomment json extra v show ?thesis by blast
qed

section \<open>The report of a failed validation\<close>











section \<open>Validation before the request\<close>

lemma rawInputs_issues:
  "fst (rawInputsSchema h (Some (inputsObject inputs))) =
     map (\<lambda>e. e\<lparr>path := Key (lit ''apiKey'') # path e\<rparr>) (fst (apiKeySchema h (Some (JStr (apiKey inputs)))))
     @ map (\<lambda>e. e\<lparr>path := Key (lit ''prNumber'') # path e\<rparr>) (fst (prNumberSchema h (Some (JNum (prNumber inputs)))))
     @ map (\<lambda>e. e\<lparr>path := Key (lit ''apiUrl'') # path e\<rparr>)
         (fst (z_string h [chk_url h (lit ''API URL must be a valid HTTPS URL''),
                           chk_startsWith (lit ''https://'') (lit ''API URL must use HTTPS for security'')]
                 (Some (JStr (apiUrl inputs)))))"
  by (simp add: rawInputsSchema_def inputsObject_def z_object_obj lit_inject z_string_def)

lemma validateInputs_result:
  "validateInputs h inputs =
     (if fst (rawInputsSchema h (Some (inputsObject inputs))) = [] then Inr ()
      else Inl (Error (formatZodError h (fst (rawInputsSchema h (Some (inputsObject inputs)))))))"
  by (cases "rawInputsSchema h (Some (inputsObject inputs))")
     (auto simp add: validateInputs_def zparse_def split: list.splits)



lemma apiUrl_bad:
  assumes "URL_parse h u = None \<or> \<not> startsWith u (lit ''https://'')"
  shows "fst (z_string h [chk_url h (lit ''API URL must be a valid HTTPS URL''),
                           chk_startsWith (lit ''https://'') (lit ''API URL must use HTTPS for security'')]
                 (Some (JStr u))) \<noteq> []"
  using assms
  by (auto simp add: z_string_def chk_url_def chk_startsWith_def Let_def)

lemma run_validation_fails:
  assumes "getActionInputs h = Inr inputs" "validateInputs h inputs = Inl (Error msg)"
  shows "run h st = setFailed msg st"
  using assms by (simp add: run_def exn_message_def)




lemma makeHttpRequest_sent:
  "makeHttpRequest h u method headers body st = (r, st') \<Longrightarrow> sent st' \<noteq> sent st \<Longrightarrow>
     (\<exists>p. URL_parse h u = Some p \<and> protocol p = lit ''https:'')"
  by (auto simp add: makeHttpRequest_def Let_def split: option.splits if_splits transport_result.splits)


lemma apiUrl_issue_paths:
  "e \<in> set (fst (z_string h [chk_url h m1, chk_startsWith p m2] v)) \<Longrightarrow> path e = []"
  by (auto simp add: z_string_def chk_url_def chk_startsWith_def invalid_type_def mkIssue_def Let_def
      split: option.splits json.splits if_splits)


lemma validateInputs_bad_apiUrl:
  assumes "URL_parse h (apiUrl inputs) = None \<or> \<not> startsWith (apiUrl inputs) (lit ''https://'')"
  shows "\<exists>issues i. validateInputs h inputs = Inl (Error (formatZodError h issues))
           \<and> i \<in> set issues \<and> path i = [Key (lit ''apiUrl'')]"
proof -
  let ?s = "z_string h [chk_url h (lit ''API URL must be a valid HTTPS URL''),
                           chk_startsWith (lit ''https://'') (lit ''API URL must use HTTPS for security'')]
                 (Some (JStr (apiUrl inputs)))"
  from apiUrl_bad[OF assms] obtain e where e: "e \<in> set (fst ?s)"
    by (cases "fst ?s") auto
  let ?i = "e\<lparr>path := Key (lit ''apiUrl'') # path e\<rparr>"
  let ?issues = "fst (rawInputsSchema h (Some (inputsObject inputs)))"
  have m: "?i \<in> set ?issues" using e by (simp add: rawInputs_issues)
  then have ne: "?issues \<noteq> []" by auto
  have p: "path ?i = [Key (lit ''apiUrl'')]" using apiUrl_issue_paths[OF e] by simp
  from ne have "validateInputs h inputs = Inl (Error (formatZodError h ?issues))"
    by (simp add: validateInputs_result)
  with m p show ?thesis by blast
qed




lemma parseInt10_5: "parseInt10 (lit ''5'') = Fin 5"
  by (simp add: parseInt10_def isWhiteSpace_def isDigit_def digitsValue_def lit_def Let_def)

lemma trim_words:
  "trim (lit ''k'') = lit ''k''" "trim (lit ''-7'') = lit ''-7''" "trim (lit ''hi'') = lit ''hi''"
  "trim (lit ''5'') = lit ''5''" "trim (lit ''http://x.com'') = lit ''http://x.com''"
  by (simp_all add: trim_def isWhiteSpace_def lit_def)


lemma getActionInputs_hhttp: "getActionInputs hhttp = Inr http_inputs"
  by (simp add: getActionInputs_def core_getInput_def hhttp_def table_host_def lit_inject
      lit_Nil_iff trim_words trim_empty parseInt10_5 Let_def http_inputs_def)



lemma take_lit: "take n (lit s) = lit (take n s)"
  by (simp add: lit_def take_map)

lemma startsWith_lit: "startsWith (lit s) (lit p) \<longleftrightarrow> take (length p) s = p"
  by (simp add: startsWith_def take_lit length_lit lit_inject)




text \<open>
  Claim C2. For every API URL that \<open>new URL\<close> rejects or whose scheme is not https, the
  validation of the inputs fails with an issue of the field \<open>apiUrl\<close>, the run fails
  with that message, and no request is handed to the transport. The HTTP client
  itself hands a request to the transport only for a URL whose scheme is https. (The
  schema tests the scheme by the prefix \<open>https://\<close>; the URL parser of the host gives
  the scheme https to every URL with that prefix.)
\<close>

theorem run_rejects_bad_apiUrl:
  "((\<forall>u p. URL_parse h u = Some p \<and> startsWith u (lit ''https://'') \<longrightarrow> protocol p = lit ''https:'')
     \<and> getActionInputs h = Inr inputs
     \<and> (URL_parse h (apiUrl inputs) = None
          \<or> (\<exists>p. URL_parse h (apiUrl inputs) = Some p \<and> protocol p \<noteq> lit ''https:''))
     \<longrightarrow>
       (\<exists>issues i. validateInputs h inputs = Inl (Error (formatZodError h issues))
            \<and> failed (run h st) = Some (formatZodError h issues)
            \<and> i \<in> set issues \<and> path i = [Key (lit ''apiUrl'')])
       \<and> sent (run h st) = sent st)
   \<and> (\<forall>u method headers body s r s'.
         makeHttpRequest h u method headers body s = (r, s') \<longrightarrow> sent s' \<noteq> sent s \<longrightarrow>
           (\<exists>p. URL_parse h u = Some p \<and> protocol p = lit ''https:''))"
proof (intro conjI impI)
  assume a: "(\<forall>u p. URL_parse h u = Some p \<and> startsWith u (lit ''https://'') \<longrightarrow> protocol p = lit ''https:'')
     \<and> getActionInputs h = Inr inputs
     \<and> (URL_parse h (apiUrl inputs) = None
          \<or> (\<exists>p. URL_parse h (apiUrl inputs) = Some p \<and> protocol p \<noteq> lit ''https:''))"
  then have inputs: "getActionInputs h = Inr inputs" by blast
  from a have "URL_parse h (apiUrl inputs) = None \<or> \<not> startsWith (apiUrl inputs) (lit ''https://'')"
    by auto
  from validateInputs_bad_apiUrl[OF this] obtain issues i where
    v: "validateInputs h inputs = Inl (Error (formatZodError h issues))"
    and i: "i \<in> set issues" "path i = [Key (lit ''apiUrl'')]" by blast
  from run_validation_fails[OF inputs v, of st]
  have r: "run h st = setFailed (formatZodError h issues) st" .
  show "\<exists>issues i. validateInputs h inputs = Inl (Error (formatZodError h issues))
            \<and> failed (run h st) = Some (formatZodError h issues)
            \<and> i \<in> set issues \<and> path i = [Key (lit ''apiUrl'')]"
    using v i r by (auto simp add: setFailed_def)
  show "sent (run h st) = sent st" using r by (simp add: setFailed_def)
next
  show "\<forall>u method headers body s r s'.
         makeHttpRequest h u method headers body s = (r, s') \<longrightarrow> sent s' \<noteq> sent s \<longrightarrow>
           (\<exists>p. URL_parse h u = Some p \<and> protocol p = lit ''https:'')"
    using makeHttpRequest_sent by blast
qed

lemma hhttp_urls:
  "URL_parse hhttp u = Some p \<Longrightarrow>
     (u = lit ''https://dev-herald.com/api/v1/github'' \<and> p = default_url)
     \<or> (u = lit ''http://x.com'' \<and> protocol p = lit ''http:'')"
  by (auto simp add: hhttp_def table_host_def split: if_splits)

theorem run_rejects_bad_apiUrl_witness:
  "getActionInputs hhttp = Inr http_inputs
   \<and> apiUrl http_inputs = lit ''http://x.com''
   \<and> (\<exists>p. URL_parse hhttp (apiUrl http_inputs) = Some p \<and> protocol p = lit ''http:'')
   \<and> (\<exists>issues i. validateInputs hhttp http_inputs = Inl (Error (formatZodError hhttp issues))
         \<and> failed (run hhttp initial_state) = Some (formatZodError hhttp issues)
         \<and> i \<in> set issues \<and> path i = [Key (lit ''apiUrl'')])
   \<and> sent (run hhttp initial_state) = []"
proof -
  have scheme: "\<forall>u p. URL_parse hhttp u = Some p \<and> startsWith u (lit ''https://'') \<longrightarrow> protocol p = lit ''https:''"
  proof (intro allI impI)
    fix u p assume a: "URL_parse hhttp u = Some p \<and> startsWith u (lit ''https://'')"
    from hhttp_urls[of u p] a show "protocol p = lit ''https:''"
      by (auto simp add: default_url_def startsWith_lit)
  qed
  have u: "apiUrl http_inputs = lit ''http://x.com''" by (simp add: http_inputs_def)
  have p: "\<exists>p. URL_parse hhttp (apiUrl http_inputs) = Some p \<and> protocol p = lit ''http:''"
    by (simp add: u hhttp_def table_host_def lit_inject)
  then have bad: "URL_parse hhttp (apiUrl http_inputs) = None
              \<or> (\<exists>p. URL_parse hhttp (apiUrl http_inputs) = Some p \<and> protocol p \<noteq> lit ''https:'')"
    by (auto simp add: lit_inject)
  have s: "sent initial_state = []" by (simp add: initial_state_def)
  from run_rejects_bad_apiUrl[of hhttp http_inputs initial_state] scheme getActionInputs_hhttp bad
  have "(\<exists>issues i. validateInputs hhttp http_inputs = Inl (Error (formatZodError hhttp issues))
            \<and> failed (run hhttp initial_state) = Some (formatZodError hhttp issues)
            \<and> i \<in> set issues \<and> path i = [Key (lit ''apiUrl'')])
       \<and> sent (run hhttp initial_state) = sent initial_state"
    by blast
  with getActionInputs_hhttp u p s
  show ?thesis by simp
qed


end
